theory Spec2Isabelle
  imports Main
begin

section \<open>Order progress aggregation (controller \<open>updateOrderProgress\<close>)\<close>

text \<open>
  The persisted order document (the schema at the end of \<^verbatim>\<open>src/server.mjs\<close>) and the
  handler \<^verbatim>\<open>updateOrderProgress\<close> (lines 865-943).

  Modelling decisions, all visible in the definitions below:
  \<^item> JavaScript numbers that count pieces are \<open>int\<close> (no fractional or NaN quantities);
  \<^item> \<^verbatim>\<open>item._id.toString()\<close> is a \<open>string\<close>, compared with \<^verbatim>\<open>===\<close>;
  \<^item> \<^verbatim>\<open>team_tracking\<close> is optional in the type, as the handler tests it
    (\<^verbatim>\<open>team_tracking?.total_completed_qty || 0\<close>, \<^verbatim>\<open>if (!itemToUpdate.team_tracking)\<close>), and
    when present its \<^verbatim>\<open>status\<close> is one of the schema's two enum values. The schema
    (lines 1131-1142) gives the fields of \<^verbatim>\<open>team_tracking\<close> defaults, so an item of a document
    that \<^verbatim>\<open>findOne\<close> returns carries \<open>default_tracking\<close> until progress is recorded; every
    example below uses such items, and the general theorems cover both cases;
  \<^item> the document store is a map from \<^verbatim>\<open>order_number\<close> (declared unique) to the document
    as \<^verbatim>\<open>findOne\<close> returns it; \<^verbatim>\<open>save\<close> writes the fetched document back;
  \<^item> \<^verbatim>\<open>new Date()\<close> is the parameter \<open>now\<close>;
  \<^item> the \<^verbatim>\<open>throw\<close> inside \<^verbatim>\<open>forEach\<close> is a value: the loop result carries the in-memory
    items as they were when the exception left the loop.
\<close>

datatype progress_status = Pending | Completed

record completed_entry =
  entry_qty_completed :: int
  timestamp :: nat

record team_tracking =
  total_completed_qty :: int
  completed_entries :: "completed_entry list"
  status :: progress_status

text \<open>The defaults of \<^verbatim>\<open>teamTrackingSchema\<close> (lines 1131-1142).\<close>

definition default_tracking :: team_tracking where
  "default_tracking =
     \<lparr>total_completed_qty = 0, completed_entries = [], status = Pending\<rparr>"

record item =
  oid :: string
  quantity :: int
  team_tracking :: "team_tracking option"

record details =
  glass :: "item list"
  caps :: "item list"
  boxes :: "item list"
  pumps :: "item list"

record order_doc =
  order_number :: string
  order_status :: progress_status
  order_details :: details

record progress_update =
  item_id :: string
  qty_completed :: int

record progress_request =
  req_order_number :: "string option"
  req_team_type :: "string option"
  req_updates :: "progress_update list option"

datatype exn =
    QuantityExceeded string int
  | TypeError

datatype message =
    InvalidRequest
  | OrderNotFound
  | InvalidTeamType
  | ExceptionMessage exn
  | Success order_doc

datatype response = Response nat message

type_synonym order_store = "string \<Rightarrow> order_doc option"

text \<open>JavaScript truthiness of a value that is \<^verbatim>\<open>undefined\<close> or a string.\<close>

definition truthy :: "string option \<Rightarrow> bool" where
  "truthy v = (case v of None \<Rightarrow> False | Some s \<Rightarrow> s \<noteq> [])"

text \<open>\<^verbatim>\<open>teamItems.find(item => item._id.toString() === update.item_id)\<close> (lines 887-889).\<close>

definition find_item :: "string \<Rightarrow> item list \<Rightarrow> item option" where
  "find_item i teamItems = List.find (\<lambda>it. oid it = i) teamItems"

text \<open>
  The found item is an object of the array and is mutated in place: the first element
  with the identifier is replaced by its updated value.
\<close>

fun modify_first :: "('a \<Rightarrow> bool) \<Rightarrow> ('a \<Rightarrow> 'a) \<Rightarrow> 'a list \<Rightarrow> 'a list" where
  "modify_first P f [] = []"
| "modify_first P f (x # xs) = (if P x then f x # xs else x # modify_first P f xs)"

text \<open>Line 896: \<^verbatim>\<open>quantity - (team_tracking?.total_completed_qty || 0)\<close>.\<close>

definition maxAllowedQty :: "item \<Rightarrow> int" where
  "maxAllowedQty it =
     quantity it - (case team_tracking it of None \<Rightarrow> 0 | Some t \<Rightarrow> total_completed_qty t)"

text \<open>Lines 901-921: the first entry creates the tracking record, later ones extend it.\<close>

definition record_progress :: "nat \<Rightarrow> int \<Rightarrow> item \<Rightarrow> item" where
  "record_progress now q it =
     (case team_tracking it of
        None \<Rightarrow>
          it\<lparr>team_tracking := Some
            \<lparr>total_completed_qty = q,
             completed_entries = [\<lparr>entry_qty_completed = q, timestamp = now\<rparr>],
             status = (if q \<ge> quantity it then Completed else Pending)\<rparr>\<rparr>
      | Some t \<Rightarrow>
          it\<lparr>team_tracking := Some
            \<lparr>total_completed_qty = total_completed_qty t + q,
             completed_entries =
               completed_entries t @ [\<lparr>entry_qty_completed = q, timestamp = now\<rparr>],
             status = (if total_completed_qty t + q \<ge> quantity it
                       then Completed else Pending)\<rparr>\<rparr>)"

text \<open>
  One run of the \<^verbatim>\<open>forEach\<close> callback (lines 886-922): it returns early with a
  warning when the item is missing, throws when the quantity is exceeded, and otherwise
  mutates the item.
\<close>

datatype step = Skipped | Threw exn | Applied "item list"

definition update_callback :: "nat \<Rightarrow> item list \<Rightarrow> progress_update \<Rightarrow> step" where
  "update_callback now teamItems u =
     (case find_item (item_id u) teamItems of
        None \<Rightarrow> Skipped
      | Some itemToUpdate \<Rightarrow>
          if qty_completed u > maxAllowedQty itemToUpdate
          then Threw (QuantityExceeded (item_id u) (maxAllowedQty itemToUpdate))
          else Applied (modify_first (\<lambda>it. oid it = item_id u)
                          (record_progress now (qty_completed u)) teamItems))"

text \<open>
  \<^verbatim>\<open>updates.forEach(...)\<close>: the items in memory after the loop, the identifiers
  warned about (\<^verbatim>\<open>console.warn\<close>, in order), and the exception that ended the loop, if any.
\<close>

record loop_result =
  items_after :: "item list"
  warnings :: "string list"
  thrown :: "exn option"

fun forEach_updates :: "nat \<Rightarrow> item list \<Rightarrow> progress_update list \<Rightarrow> loop_result" where
  "forEach_updates now teamItems [] =
     \<lparr>items_after = teamItems, warnings = [], thrown = None\<rparr>"
| "forEach_updates now teamItems (u # us) =
     (case update_callback now teamItems u of
        Skipped \<Rightarrow>
          (let r = forEach_updates now teamItems us
           in r\<lparr>warnings := item_id u # warnings r\<rparr>)
      | Threw e \<Rightarrow> \<lparr>items_after = teamItems, warnings = [], thrown = Some e\<rparr>
      | Applied teamItems' \<Rightarrow> forEach_updates now teamItems' us)"

definition validTeamTypes :: "string list" where
  "validTeamTypes = [''glass'', ''caps'', ''boxes'', ''pumps'']"

text \<open>\<^verbatim>\<open>order.order_details[team_type]\<close> for a valid team type, read and written.\<close>

definition section_of :: "string \<Rightarrow> details \<Rightarrow> item list" where
  "section_of team_type d =
     (if team_type = ''glass'' then glass d
      else if team_type = ''caps'' then caps d
      else if team_type = ''boxes'' then boxes d
      else pumps d)"

definition set_section :: "string \<Rightarrow> item list \<Rightarrow> details \<Rightarrow> details" where
  "set_section team_type its d =
     (if team_type = ''glass'' then d\<lparr>glass := its\<rparr>
      else if team_type = ''caps'' then d\<lparr>caps := its\<rparr>
      else if team_type = ''boxes'' then d\<lparr>boxes := its\<rparr>
      else d\<lparr>pumps := its\<rparr>)"

text \<open>
  Lines 924-928: every item of every section has tracking status \<^verbatim>\<open>'Completed'\<close> or no
  tracking status at all.
\<close>

definition item_done :: "item \<Rightarrow> bool" where
  "item_done it = (case team_tracking it of None \<Rightarrow> True | Some t \<Rightarrow> status t = Completed)"

definition isOrderCompleted :: "details \<Rightarrow> bool" where
  "isOrderCompleted d = list_all (list_all item_done) [glass d, caps d, boxes d, pumps d]"

text \<open>
  The handler. Its result holds the HTTP response, the store afterwards, the order object
  in memory when the handler ended (if one was fetched), and the warnings logged.
\<close>

record handler_result =
  response :: response
  store :: order_store
  in_memory :: "order_doc option"
  logged :: "string list"

definition updateOrderProgress ::
    "nat \<Rightarrow> order_store \<Rightarrow> progress_request \<Rightarrow> handler_result" where
  "updateOrderProgress now db req =
     (case (req_order_number req, req_team_type req, req_updates req) of
        (Some n, Some team_type, Some updates) \<Rightarrow>
          if n = [] \<or> team_type = [] then
            \<lparr>response = Response 400 InvalidRequest, store = db,
             in_memory = None, logged = []\<rparr>
          else
            (case db n of
               None \<Rightarrow>
                 \<lparr>response = Response 404 OrderNotFound, store = db,
                  in_memory = None, logged = []\<rparr>
             | Some ord \<Rightarrow>
                 if team_type \<notin> set validTeamTypes then
                   \<lparr>response = Response 400 InvalidTeamType, store = db,
                    in_memory = Some ord, logged = []\<rparr>
                 else
                   (let r = forEach_updates now
                              (section_of team_type (order_details ord)) updates;
                        d' = set_section team_type (items_after r) (order_details ord);
                        mutated = ord\<lparr>order_details := d'\<rparr>
                    in case thrown r of
                         Some e \<Rightarrow>
                           \<lparr>response = Response 500 (ExceptionMessage e), store = db,
                            in_memory = Some mutated, logged = warnings r\<rparr>
                       | None \<Rightarrow>
                           (let saved =
                                  (if isOrderCompleted d'
                                   then mutated\<lparr>order_status := Completed\<rparr>
                                   else mutated)
                            in \<lparr>response = Response 200 (Success saved),
                                store = db(n \<mapsto> saved),
                                in_memory = Some saved, logged = warnings r\<rparr>)))
      | _ \<Rightarrow>
          \<lparr>response = Response 400 InvalidRequest, store = db,
           in_memory = None, logged = []\<rparr>)"

section \<open>Real-time core: the connection-keyed implementation (lines 37-436)\<close>

text \<open>
  A string is a sequence of code units below 256 (Latin-1). \<^verbatim>\<open>toLowerCase\<close> maps \<open>A\<close>..\<open>Z\<close>
  (65..90) and the upper-case letters 192..214 and 216..222 to the letter 32 above;
  \<^verbatim>\<open>trim\<close> strips white space and line terminators from both ends: tab, line feed,
  vertical tab, form feed, carriage return, space and the no-break space (160).
\<close>

definition toLowerCase_char :: "char \<Rightarrow> char" where
  "toLowerCase_char c =
     (let n = (of_char c :: nat)
      in if (65 \<le> n \<and> n \<le> 90) \<or> (192 \<le> n \<and> n \<le> 214) \<or> (216 \<le> n \<and> n \<le> 222)
         then char_of (n + 32) else c)"

definition toLowerCase :: "string \<Rightarrow> string" where
  "toLowerCase s = map toLowerCase_char s"

definition is_whitespace :: "char \<Rightarrow> bool" where
  "is_whitespace c = ((of_char c :: nat) \<in> {9, 10, 11, 12, 13, 32, 160})"

definition trim :: "string \<Rightarrow> string" where
  "trim s = rev (dropWhile is_whitespace (rev (dropWhile is_whitespace s)))"

text \<open>\<^verbatim>\<open>x.toLowerCase().trim()\<close> and \<^verbatim>\<open>x?.toLowerCase().trim()\<close>.\<close>

definition normalizeTeam :: "string \<Rightarrow> string" where
  "normalizeTeam s = trim (toLowerCase s)"

definition normalize_opt :: "string option \<Rightarrow> string option" where
  "normalize_opt v = map_option normalizeTeam v"

type_synonym socket_id = string

text \<open>
  The payload of \<^verbatim>\<open>register\<close> (and the handshake query), and the \<^verbatim>\<open>userInfo\<close> object built
  from it. A field that is \<^verbatim>\<open>undefined\<close> is \<open>None\<close>.
\<close>

record userData =
  userId :: "string option"
  role :: "string option"
  team :: "string option"
  teamType :: "string option"

record userInfo = userData +
  socketId :: socket_id
  connected :: bool
  connectedAt :: nat

text \<open>
  The module state: the two maps, the object \<^verbatim>\<open>teamMembers\<close> (a set of socket ids under
  each of its five keys), and the rooms of the transport: \<open>rooms s sid\<close> holds the rooms
  the socket \<open>sid\<close> has joined with \<^verbatim>\<open>socket.join\<close>; a room's members are the sockets that
  \<^verbatim>\<open>io.to(room).emit\<close> reaches.
\<close>

record registry =
  connectedUsers :: "socket_id \<Rightarrow> userInfo option"
  userIdentities :: "string \<Rightarrow> socket_id option"
  teamMembers :: "string \<Rightarrow> socket_id set"
  rooms :: "socket_id \<Rightarrow> string set"

definition team_keys :: "string list" where
  "team_keys = [''dispatchers'', ''glass'', ''cap'', ''box'', ''pump'']"

text \<open>
  \<^verbatim>\<open>teamMembers[name]\<close> for a lower-cased, trimmed name: one of the five sets, a property
  inherited from \<^verbatim>\<open>Object.prototype\<close> (only \<^verbatim>\<open>constructor\<close> and \<^verbatim>\<open>__proto__\<close> have names
  without an upper-case letter), or \<^verbatim>\<open>undefined\<close>. An inherited property is truthy and has
  no method \<^verbatim>\<open>add\<close>, so calling it throws a \<^verbatim>\<open>TypeError\<close>.
\<close>

datatype property = Undefined | OwnSet | Inherited

definition teamMembers_property :: "string \<Rightarrow> property" where
  "teamMembers_property name =
     (if name \<in> set team_keys then OwnSet
      else if name = ''constructor'' \<or> name = ''__proto__'' then Inherited
      else Undefined)"

text \<open>\<^verbatim>\<open>teamMembers[name].add(socket.id); socket.join(name)\<close>.\<close>

definition add_and_join :: "socket_id \<Rightarrow> string \<Rightarrow> registry \<Rightarrow> registry" where
  "add_and_join sid name s =
     s\<lparr>teamMembers := (teamMembers s)(name := insert sid (teamMembers s name)),
       rooms := (rooms s)(sid := insert name (rooms s sid))\<rparr>"

text \<open>\<^verbatim>\<open>if (teamMembers[name]) { teamMembers[name].add(...); socket.join(name) }\<close>.\<close>

definition join_if_valid :: "socket_id \<Rightarrow> string \<Rightarrow> registry \<Rightarrow> registry \<times> exn option" where
  "join_if_valid sid name s =
     (case teamMembers_property name of
        Undefined \<Rightarrow> (s, None)
      | Inherited \<Rightarrow> (s, Some TypeError)
      | OwnSet \<Rightarrow> (add_and_join sid name s, None))"

text \<open>
  \<^verbatim>\<open>addUserToTeams\<close> (lines 109-142). The state is returned with the exception, as it was
  when the exception left the function.
\<close>

definition addUserToTeams :: "socket_id \<Rightarrow> userInfo \<Rightarrow> registry \<Rightarrow> registry \<times> exn option" where
  "addUserToTeams sid ui s =
     (let s1 = (if role ui = Some ''admin'' \<or> role ui = Some ''dispatcher''
                then add_and_join sid ''dispatchers'' s else s);
          r2 = (case team ui of
                  None \<Rightarrow> (s1, None)
                | Some t \<Rightarrow> if t = [] then (s1, None) else join_if_valid sid (normalizeTeam t) s1)
      in case r2 of
           (s2, Some e) \<Rightarrow> (s2, Some e)
         | (s2, None) \<Rightarrow>
             (case teamType ui of
                None \<Rightarrow> (s2, None)
              | Some tt \<Rightarrow>
                  if tt = [] \<or> teamType ui = team ui then (s2, None)
                  else join_if_valid sid (normalizeTeam tt) s2))"

text \<open>\<^verbatim>\<open>removeUserFromTeams\<close> (lines 359-369): the five sets only; no room is left.\<close>

definition removeUserFromTeams :: "socket_id \<Rightarrow> registry \<Rightarrow> registry" where
  "removeUserFromTeams sid s =
     s\<lparr>teamMembers := (\<lambda>name. if name \<in> set team_keys then teamMembers s name - {sid}
                               else teamMembers s name)\<rparr>"

text \<open>
  The \<^verbatim>\<open>register\<close> handler (lines 72-106) and the registration at connection time
  (lines 52-70), as transformers of the state. Their emissions (\<^verbatim>\<open>registered\<close> and the
  presence broadcast, which reads the state and does not change it) are not modelled.
\<close>

definition register :: "nat \<Rightarrow> socket_id \<Rightarrow> userData \<Rightarrow> registry \<Rightarrow> registry \<times> exn option" where
  "register now sid d s =
     (let uniqueId = (case userId d of None \<Rightarrow> sid | Some u \<Rightarrow> if u = [] then sid else u);
          ui = \<lparr>userId = Some uniqueId, role = role d,
                team = normalize_opt (team d), teamType = normalize_opt (teamType d),
                socketId = sid, connected = True, connectedAt = now\<rparr>;
          s1 = removeUserFromTeams sid s;
          s2 = s1\<lparr>connectedUsers := (connectedUsers s1)(sid \<mapsto> ui),
                  userIdentities := (userIdentities s1)(uniqueId \<mapsto> sid)\<rparr>
      in addUserToTeams sid ui s2)"

definition on_connection :: "nat \<Rightarrow> socket_id \<Rightarrow> userData \<Rightarrow> registry \<Rightarrow> registry \<times> exn option" where
  "on_connection now sid q s =
     (case userId q of
        None \<Rightarrow> (s, None)
      | Some u \<Rightarrow>
          if u \<noteq> [] \<and> truthy (role q) then
            (let ui = \<lparr>userId = Some u, role = role q,
                       team = normalize_opt (team q), teamType = normalize_opt (teamType q),
                       socketId = sid, connected = True, connectedAt = now\<rparr>;
                 s1 = s\<lparr>connectedUsers := (connectedUsers s)(sid \<mapsto> ui),
                        userIdentities := (userIdentities s)(u \<mapsto> sid)\<rparr>
             in addUserToTeams sid ui s1)
          else (s, None))"

subsection \<open>The \<^verbatim>\<open>create-order\<close> and \<^verbatim>\<open>delete-order\<close> handlers (lines 163-222, 303-356)\<close>

text \<open>
  The payload of an event is an object (the handlers destructure it), and the order it
  carries is JSON from the client: every field may be missing. \<open>None\<close> for \<open>ev_order\<close>
  is a missing (falsy) order body; \<open>teamTypes\<close>, when given, is an array of strings.
\<close>

record details_payload =
  p_glass :: "item list option"
  p_caps :: "item list option"
  p_boxes :: "item list option"
  p_pumps :: "item list option"

record order_payload =
  p_id :: "string option"
  p_order_number :: "string option"
  p_order_details :: "details_payload option"

record order_event =
  ev_order :: "order_payload option"
  ev_teamTypes :: "string list option"
  ev_timestamp :: "string option"

text \<open>What a handler emits: to a room (\<^verbatim>\<open>io.to(room).emit\<close>) or to one socket (\<^verbatim>\<open>socket.emit\<close>).\<close>

datatype target = ToRoom string | ToSocket socket_id

record meta =
  by_user :: "userInfo option"
  meta_timestamp :: string
  targetTeams :: "string list"

datatype payload =
    OrderWithMeta order_payload meta
  | ErrorInfo string
  | CreateConfirmed "string option" "string option" string "string list" string
  | DeleteConfirmed "string option" "string option" string string

record emission =
  target :: target
  event :: string
  payload :: payload

text \<open>\<^verbatim>\<open>order.order_details?.glass?.length > 0\<close>, for any of the four sections.\<close>

definition has_items ::
    "order_payload \<Rightarrow> (details_payload \<Rightarrow> item list option) \<Rightarrow> bool" where
  "has_items ord sel =
     (case p_order_details ord of
        None \<Rightarrow> False
      | Some d \<Rightarrow> (case sel d of None \<Rightarrow> False | Some its \<Rightarrow> length its > 0))"

text \<open>The four pushes (lines 178-181 and 318-321), in their order.\<close>

definition section_teams :: "order_payload \<Rightarrow> string list" where
  "section_teams ord =
     (if has_items ord p_glass then [''glass''] else []) @
     (if has_items ord p_caps then [''cap''] else []) @
     (if has_items ord p_boxes then [''box''] else []) @
     (if has_items ord p_pumps then [''pump''] else [])"

text \<open>Lines 176-189: the target teams of \<^verbatim>\<open>create-order\<close>, normalized.\<close>

definition create_targetTeams :: "order_payload \<Rightarrow> string list option \<Rightarrow> string list" where
  "create_targetTeams ord teamTypes =
     (let targetTeams0 = (case teamTypes of None \<Rightarrow> [] | Some ts \<Rightarrow> ts);
          targetTeams1 = (if targetTeams0 = [] then section_teams ord else targetTeams0);
          targetTeams2 = (if targetTeams1 = [] then [''unassigned''] else targetTeams1)
      in map normalizeTeam targetTeams2)"

text \<open>Lines 315-322: the target teams of \<^verbatim>\<open>delete-order\<close>; there is no fallback.\<close>

definition delete_targetTeams :: "order_payload \<Rightarrow> string list option \<Rightarrow> string list" where
  "delete_targetTeams ord teamTypes =
     (let normalizedTeams0 = (case teamTypes of None \<Rightarrow> [] | Some ts \<Rightarrow> ts)
      in if normalizedTeams0 = [] then section_teams ord else normalizedTeams0)"

text \<open>\<^verbatim>\<open>timestamp || new Date().toISOString()\<close>, the clock's string being \<open>now\<close>.\<close>

definition timestamp_or :: "string option \<Rightarrow> string \<Rightarrow> string" where
  "timestamp_or t now = (case t of None \<Rightarrow> now | Some x \<Rightarrow> if x = [] then now else x)"

definition create_order ::
    "string \<Rightarrow> socket_id \<Rightarrow> registry \<Rightarrow> order_event \<Rightarrow> emission list" where
  "create_order now sid s data =
     (case ev_order data of
        None \<Rightarrow>
          [\<lparr>target = ToSocket sid, event = ''order-create-error'',
            payload = ErrorInfo ''Invalid order data''\<rparr>]
      | Some ord \<Rightarrow>
          (let normalizedTeams = create_targetTeams ord (ev_teamTypes data);
               metaInfo = \<lparr>by_user = connectedUsers s sid,
                           meta_timestamp = timestamp_or (ev_timestamp data) now,
                           targetTeams = normalizedTeams\<rparr>
           in map (\<lambda>team. \<lparr>target = ToRoom team, event = ''new-order'',
                             payload = OrderWithMeta ord metaInfo\<rparr>) normalizedTeams
              @ [\<lparr>target = ToRoom ''dispatchers'', event = ''new-order'',
                   payload = OrderWithMeta ord metaInfo\<rparr>]
              @ [\<lparr>target = ToSocket sid, event = ''order-create-confirmed'',
                   payload = CreateConfirmed (p_id ord) (p_order_number ord) ''delivered''
                               normalizedTeams now\<rparr>]))"

definition delete_order ::
    "string \<Rightarrow> socket_id \<Rightarrow> registry \<Rightarrow> order_event \<Rightarrow> emission list" where
  "delete_order now sid s data =
     (case ev_order data of
        None \<Rightarrow>
          [\<lparr>target = ToSocket sid, event = ''order-delete-error'',
            payload = ErrorInfo ''Invalid order data''\<rparr>]
      | Some ord \<Rightarrow>
          if \<not> truthy (p_id ord) then
            [\<lparr>target = ToSocket sid, event = ''order-delete-error'',
              payload = ErrorInfo ''Invalid order data''\<rparr>]
          else
            (let normalizedTeams = delete_targetTeams ord (ev_teamTypes data);
                 metaInfo = \<lparr>by_user = connectedUsers s sid,
                             meta_timestamp = timestamp_or (ev_timestamp data) now,
                             targetTeams = normalizedTeams\<rparr>
             in map (\<lambda>team. \<lparr>target = ToRoom (normalizeTeam team), event = ''order-deleted'',
                               payload = OrderWithMeta ord metaInfo\<rparr>) normalizedTeams
                @ [\<lparr>target = ToRoom ''dispatchers'', event = ''order-deleted'',
                     payload = OrderWithMeta ord metaInfo\<rparr>]
                @ [\<lparr>target = ToSocket sid, event = ''order-delete-confirmed'',
                     payload = DeleteConfirmed (p_id ord) (p_order_number ord) ''deleted''
                                 now\<rparr>]))"

text \<open>The sockets an emission reaches.\<close>

definition receivers :: "registry \<Rightarrow> target \<Rightarrow> socket_id set" where
  "receivers s t = (case t of ToRoom r \<Rightarrow> {sid. r \<in> rooms s sid} | ToSocket sid \<Rightarrow> {sid})"

text \<open>The events sent straight to one socket: its confirmations and errors.\<close>

definition sent_to :: "socket_id \<Rightarrow> emission list \<Rightarrow> emission list" where
  "sent_to sid ems = filter (\<lambda>e. target e = ToSocket sid) ems"

section \<open>Real-time core: the user-keyed implementation (lines 477-528)\<close>






section \<open>Example data\<close>

text \<open>
  An order \<open>ORD-1\<close> with two glass items, \<open>a1\<close> (10 pieces) and \<open>b2\<close> (5 pieces), with
  nothing recorded yet: both carry the schema's default tracking. \<open>with_entry it q t st\<close>
  is the item \<open>it\<close> after one recorded entry of \<open>q\<close> pieces at time \<open>t\<close>, with status \<open>st\<close>.
\<close>

definition item_A :: item where
  "item_A = \<lparr>oid = ''a1'', quantity = 10, team_tracking = Some default_tracking\<rparr>"

definition item_B :: item where
  "item_B = \<lparr>oid = ''b2'', quantity = 5, team_tracking = Some default_tracking\<rparr>"

definition with_entry :: "item \<Rightarrow> int \<Rightarrow> nat \<Rightarrow> progress_status \<Rightarrow> item" where
  "with_entry it q t st =
     it\<lparr>team_tracking := Some
          \<lparr>total_completed_qty = q,
           completed_entries = [\<lparr>entry_qty_completed = q, timestamp = t\<rparr>],
           status = st\<rparr>\<rparr>"

definition glass_order :: "progress_status \<Rightarrow> item list \<Rightarrow> order_doc" where
  "glass_order st its =
     \<lparr>order_number = ''ORD-1'', order_status = st,
      order_details = \<lparr>glass = its, caps = [], boxes = [], pumps = []\<rparr>\<rparr>"

definition order_1 :: order_doc where
  "order_1 = glass_order Pending [item_A, item_B]"

definition store_1 :: order_store where
  "store_1 = Map.empty(''ORD-1'' \<mapsto> order_1)"

text \<open>A store whose order \<open>ORD-1\<close> has the single item \<open>a1\<close>.\<close>

definition store_2 :: order_store where
  "store_2 = Map.empty(''ORD-1'' \<mapsto> glass_order Pending [item_A])"

text \<open>Item \<open>a1\<close> after the entries 10 (at time 1) and -3 (at time 2).\<close>

definition item_A_reduced :: item where
  "item_A_reduced =
     item_A\<lparr>team_tracking := Some
       \<lparr>total_completed_qty = 7,
        completed_entries = [\<lparr>entry_qty_completed = 10, timestamp = 1\<rparr>,
                             \<lparr>entry_qty_completed = - 3, timestamp = 2\<rparr>],
        status = Pending\<rparr>\<rparr>"

definition glass_request :: "progress_update list \<Rightarrow> progress_request" where
  "glass_request us =
     \<lparr>req_order_number = Some ''ORD-1'', req_team_type = Some ''glass'',
      req_updates = Some us\<rparr>"

text \<open>An empty registry of each implementation, a registration payload and an order event.\<close>

definition registry_0 :: registry where
  "registry_0 = \<lparr>connectedUsers = Map.empty, userIdentities = Map.empty,
                 teamMembers = (\<lambda>name. {}), rooms = (\<lambda>sid. {})\<rparr>"


definition user_with :: "string \<Rightarrow> string \<Rightarrow> userData" where
  "user_with r t = \<lparr>userId = Some ''u1'', role = Some r, team = Some t, teamType = None\<rparr>"

definition payload_with :: "details_payload \<Rightarrow> order_payload" where
  "payload_with d = \<lparr>p_id = Some ''65f0'', p_order_number = Some ''ORD-1'',
                     p_order_details = Some d\<rparr>"

definition no_sections :: details_payload where
  "no_sections = \<lparr>p_glass = Some [], p_caps = Some [], p_boxes = Some [], p_pumps = Some []\<rparr>"

definition event_for :: "order_payload \<Rightarrow> order_event" where
  "event_for ord = \<lparr>ev_order = Some ord, ev_teamTypes = None, ev_timestamp = None\<rparr>"

definition caps_only :: details_payload where
  "caps_only = \<lparr>p_glass = Some [], p_caps = Some [item_A], p_boxes = None, p_pumps = None\<rparr>"

text \<open>
  One socket registers for team \<open>glass\<close> and then, on the same connection, for team \<open>cap\<close>.
\<close>

definition registry_glass :: registry where
  "registry_glass = fst (register 1 ''s1'' (user_with ''worker'' ''glass'') registry_0)"

definition registry_cap :: registry where
  "registry_cap = fst (register 2 ''s1'' (user_with ''worker'' ''cap'') registry_glass)"


section \<open>Facts about the progress loop\<close>

lemmas example_defs = item_A_def item_B_def default_tracking_def with_entry_def glass_order_def
  order_1_def store_1_def store_2_def item_A_reduced_def glass_request_def

lemmas handler_defs = updateOrderProgress_def validTeamTypes_def section_of_def
  set_section_def isOrderCompleted_def item_done_def update_callback_def find_item_def
  maxAllowedQty_def record_progress_def

lemma record_progress_oid [simp]: "oid (record_progress now q it) = oid it"
  by (simp add: record_progress_def split: option.splits)

lemma record_progress_quantity [simp]: "quantity (record_progress now q it) = quantity it"
  by (simp add: record_progress_def split: option.splits)

lemma find_modify_first:
  "(\<And>x. P x \<Longrightarrow> P (f x)) \<Longrightarrow>
   List.find P (modify_first P f xs) = map_option f (List.find P xs)"
  by (induction xs) auto

lemma find_item_modify_first:
  "find_item i (modify_first (\<lambda>it. oid it = i) (record_progress now q) its) =
     map_option (record_progress now q) (find_item i its)"
  unfolding find_item_def by (rule find_modify_first) simp

lemma record_progress_status:
  "\<exists>t. team_tracking (record_progress now q it) = Some t
       \<and> (status t = Completed \<longleftrightarrow> quantity it \<le> total_completed_qty t)"
  by (simp add: record_progress_def split: option.splits)

lemma record_progress_remaining:
  "\<exists>t. team_tracking (record_progress now q it) = Some t
       \<and> total_completed_qty t = quantity it - maxAllowedQty it + q
       \<and> (status t = Completed \<longleftrightarrow> maxAllowedQty it \<le> q)"
  by (simp add: record_progress_def maxAllowedQty_def split: option.splits)

lemma maxAllowedQty_record_progress:
  "maxAllowedQty (record_progress now q it) = maxAllowedQty it - q"
  by (simp add: record_progress_def maxAllowedQty_def split: option.splits)

lemma callback_Threw:
  "find_item (item_id u) its = Some it \<Longrightarrow> qty_completed u > maxAllowedQty it \<Longrightarrow>
   update_callback now its u = Threw (QuantityExceeded (item_id u) (maxAllowedQty it))"
  by (simp add: update_callback_def)

lemma callback_Skipped:
  "find_item (item_id u) its = None \<Longrightarrow> update_callback now its u = Skipped"
  by (simp add: update_callback_def)

lemma callback_Applied:
  "find_item (item_id u) its = Some it \<Longrightarrow> \<not> qty_completed u > maxAllowedQty it \<Longrightarrow>
   update_callback now its u =
     Applied (modify_first (\<lambda>x. oid x = item_id u)
                (record_progress now (qty_completed u)) its)"
  by (simp add: update_callback_def)

lemma callback_Applied_find:
  assumes "update_callback now its u = Applied its'"
  shows "\<exists>it. find_item (item_id u) its = Some it \<and> qty_completed u \<le> maxAllowedQty it
           \<and> find_item (item_id u) its' = Some (record_progress now (qty_completed u) it)"
  using assms
  by (auto simp: update_callback_def find_item_modify_first split: option.splits if_splits)

text \<open>The loop over a concatenated batch: the second part runs only if the first ended
  without an exception, from the items the first part left.\<close>

lemma forEach_append:
  "forEach_updates now its (pre @ post) =
     (let r = forEach_updates now its pre in
      case thrown r of
        Some e \<Rightarrow> r
      | None \<Rightarrow> (let r' = forEach_updates now (items_after r) post
                 in r'\<lparr>warnings := warnings r @ warnings r'\<rparr>))"
proof (induction pre arbitrary: its)
  case Nil
  show ?case by simp
next
  case (Cons u us)
  show ?case
  proof (cases "update_callback now its u")
    case Skipped
    then show ?thesis using Cons.IH [of its]
      by (simp add: Let_def split: option.splits)
  next
    case (Threw e)
    then show ?thesis by simp
  next
    case (Applied its')
    then show ?thesis using Cons.IH [of its'] by simp
  qed
qed

lemma section_of_set_section [simp]:
  "section_of tt (set_section tt its d) = its"
  by (simp add: section_of_def set_section_def)

text \<open>The handler on a well-formed request for a stored order and a valid team type.\<close>

lemma handler_valid:
  assumes "req_order_number req = Some n" "n \<noteq> []"
      and "req_team_type req = Some tt" "tt \<in> set validTeamTypes"
      and "req_updates req = Some updates"
      and "db n = Some ord"
  shows "updateOrderProgress now db req =
     (let r = forEach_updates now (section_of tt (order_details ord)) updates;
          d' = set_section tt (items_after r) (order_details ord);
          mutated = ord\<lparr>order_details := d'\<rparr>
      in case thrown r of
           Some e \<Rightarrow>
             \<lparr>response = Response 500 (ExceptionMessage e), store = db,
              in_memory = Some mutated, logged = warnings r\<rparr>
         | None \<Rightarrow>
             (let saved = (if isOrderCompleted d' then mutated\<lparr>order_status := Completed\<rparr>
                           else mutated)
              in \<lparr>response = Response 200 (Success saved), store = db(n \<mapsto> saved),
                  in_memory = Some saved, logged = warnings r\<rparr>))"
proof -
  from assms(4) have "tt \<noteq> []" by (auto simp: validTeamTypes_def)
  with assms show ?thesis
    by (simp add: updateOrderProgress_def)
qed

lemma handler_single_update:
  assumes req: "req_order_number req = Some n" "n \<noteq> []"
               "req_team_type req = Some tt" "tt \<in> set validTeamTypes"
               "req_updates req = Some [u]"
      and db: "db n = Some ord"
      and found: "find_item (item_id u) (section_of tt (order_details ord)) = Some it"
      and fits: "qty_completed u \<le> maxAllowedQty it"
  shows "\<exists>saved. response (updateOrderProgress now db req) = Response 200 (Success saved)
           \<and> store (updateOrderProgress now db req) = db(n \<mapsto> saved)
           \<and> find_item (item_id u) (section_of tt (order_details saved)) =
               Some (record_progress now (qty_completed u) it)"
proof -
  let ?its = "section_of tt (order_details ord)"
  let ?its' = "modify_first (\<lambda>x. oid x = item_id u)
                 (record_progress now (qty_completed u)) ?its"
  have cb: "update_callback now ?its u = Applied ?its'"
    using callback_Applied [OF found, of now] fits by simp
  have loop: "forEach_updates now ?its [u] =
                \<lparr>items_after = ?its', warnings = [], thrown = None\<rparr>"
    using cb by simp
  have f: "find_item (item_id u) ?its' = Some (record_progress now (qty_completed u) it)"
    using found by (simp add: find_item_modify_first)
  show ?thesis
    using handler_valid [of req n tt "[u]" db ord now] req db loop f
    by (simp add: Let_def)
qed

text \<open>The test of lines 924-928, item by item.\<close>

lemma isOrderCompleted_iff:
  "isOrderCompleted d \<longleftrightarrow>
     (\<forall>it \<in> set (glass d) \<union> set (caps d) \<union> set (boxes d) \<union> set (pumps d).
        team_tracking it = None \<or> (\<exists>t. team_tracking it = Some t \<and> status t = Completed))"
proof -
  have each: "\<And>it. item_done it \<longleftrightarrow>
      team_tracking it = None \<or> (\<exists>t. team_tracking it = Some t \<and> status t = Completed)"
    by (simp add: item_done_def split: option.splits)
  show ?thesis
    by (simp add: isOrderCompleted_def list_all_iff ball_Un each)
qed

section \<open>Claims about the order progress aggregator\<close>

text \<open>
  Claim C1. In a batch \<open>pre @ u # post\<close> whose first part \<open>pre\<close> runs without an exception,
  if the item of \<open>u\<close> is found and \<open>qty_completed u\<close> exceeds
  \<open>maxAllowedQty = quantity - total_completed_qty\<close> (0 completed when the item has no
  tracking yet), then the loop ends with the exception \<^verbatim>\<open>Quantity exceeded\<close>, the handler
  fails (status 500 carrying that exception), the entry of \<open>u\<close> is not recorded (the item
  found is unchanged in memory), nothing of \<open>post\<close> runs, and the order object in memory
  holds exactly the items as \<open>pre\<close> left them: the earlier updates are not rolled back.
\<close>

theorem quantity_exceeded_aborts_without_rollback:
  assumes req: "req_order_number req = Some n" "n \<noteq> []"
               "req_team_type req = Some tt" "tt \<in> set validTeamTypes"
               "req_updates req = Some (pre @ u # post)"
      and db: "db n = Some ord"
      and pre: "forEach_updates now (section_of tt (order_details ord)) pre =
                  \<lparr>items_after = its1, warnings = ws, thrown = None\<rparr>"
      and found: "find_item (item_id u) its1 = Some it"
      and exceeds: "qty_completed u > maxAllowedQty it"
  shows "forEach_updates now (section_of tt (order_details ord)) (pre @ u # post) =
           \<lparr>items_after = its1, warnings = ws,
            thrown = Some (QuantityExceeded (item_id u) (maxAllowedQty it))\<rparr>
       \<and> response (updateOrderProgress now db req) =
           Response 500 (ExceptionMessage (QuantityExceeded (item_id u) (maxAllowedQty it)))
       \<and> in_memory (updateOrderProgress now db req) =
           Some (ord\<lparr>order_details := set_section tt its1 (order_details ord)\<rparr>)
       \<and> (\<exists>mem. in_memory (updateOrderProgress now db req) = Some mem
              \<and> find_item (item_id u) (section_of tt (order_details mem)) = Some it)"
proof -
  have loop: "forEach_updates now (section_of tt (order_details ord)) (pre @ u # post) =
           \<lparr>items_after = its1, warnings = ws,
            thrown = Some (QuantityExceeded (item_id u) (maxAllowedQty it))\<rparr>"
    using pre callback_Threw [OF found exceeds, of now]
    by (simp add: forEach_append)
  have h: "updateOrderProgress now db req =
      \<lparr>response = Response 500
         (ExceptionMessage (QuantityExceeded (item_id u) (maxAllowedQty it))),
       store = db,
       in_memory = Some (ord\<lparr>order_details := set_section tt its1 (order_details ord)\<rparr>),
       logged = ws\<rparr>"
    using handler_valid [of req n tt "pre @ u # post" db ord now] req db loop
    by (simp add: Let_def)
  show ?thesis using loop h found by simp
qed

theorem quantity_exceeded_aborts_without_rollback_witness:
  "forEach_updates 7 (section_of ''glass'' (order_details order_1))
       [\<lparr>item_id = ''b2'', qty_completed = 5\<rparr>] =
     \<lparr>items_after = [item_A, with_entry item_B 5 7 Completed], warnings = [], thrown = None\<rparr>
   \<and> find_item ''a1'' [item_A, with_entry item_B 5 7 Completed] = Some item_A
   \<and> 11 > maxAllowedQty item_A
   \<and> response (updateOrderProgress 7 store_1
        (glass_request [\<lparr>item_id = ''b2'', qty_completed = 5\<rparr>,
                        \<lparr>item_id = ''a1'', qty_completed = 11\<rparr>,
                        \<lparr>item_id = ''b2'', qty_completed = 0\<rparr>]))
       = Response 500 (ExceptionMessage (QuantityExceeded ''a1'' 10))
   \<and> in_memory (updateOrderProgress 7 store_1
        (glass_request [\<lparr>item_id = ''b2'', qty_completed = 5\<rparr>,
                        \<lparr>item_id = ''a1'', qty_completed = 11\<rparr>,
                        \<lparr>item_id = ''b2'', qty_completed = 0\<rparr>]))
       = Some (glass_order Pending [item_A, with_entry item_B 5 7 Completed])"
proof -
  let ?pre = "[\<lparr>item_id = ''b2'', qty_completed = 5\<rparr>]"
  let ?u = "\<lparr>item_id = ''a1'', qty_completed = 11\<rparr>"
  let ?post = "[\<lparr>item_id = ''b2'', qty_completed = 0\<rparr>]"
  let ?req = "glass_request (?pre @ ?u # ?post)"
  let ?its1 = "[item_A, with_entry item_B 5 7 Completed]"
  have r: "req_order_number ?req = Some ''ORD-1''" "''ORD-1'' \<noteq> []"
          "req_team_type ?req = Some ''glass''" "''glass'' \<in> set validTeamTypes"
          "req_updates ?req = Some (?pre @ ?u # ?post)"
    by (simp_all add: glass_request_def validTeamTypes_def)
  have db: "store_1 ''ORD-1'' = Some order_1" by (simp add: store_1_def)
  have pre: "forEach_updates 7 (section_of ''glass'' (order_details order_1)) ?pre =
     \<lparr>items_after = ?its1, warnings = [], thrown = None\<rparr>"
    by (simp add: example_defs handler_defs)
  have found: "find_item (item_id ?u) ?its1 = Some item_A"
    by (simp add: example_defs handler_defs)
  have exceeds: "qty_completed ?u > maxAllowedQty item_A"
    by (simp add: example_defs handler_defs)
  note t = quantity_exceeded_aborts_without_rollback
    [where db = store_1 and now = 7, OF r db pre found exceeds]
  show ?thesis using t pre found exceeds
    by (simp add: example_defs handler_defs)
qed

text \<open>
  Claim C2. (1) Whenever the callback applies an update, the item it updated carries a
  tracking record whose status is \<open>Completed\<close> exactly when \<open>total_completed_qty \<ge> quantity\<close>.
  (2) For a stored order with an item of quantity 10 and nothing recorded yet (the
  schema's default tracking with total 0, or no tracking at all), the batch with the
  single update \<open>qty_completed = 10\<close> succeeds and leaves the item \<open>Completed\<close> with
  \<open>total_completed_qty = 10\<close>. (3) For such an item and two single-update batches with
  \<open>q1 < quantity\<close> and \<open>q1 + q2 = quantity\<close>, run one after the other on the store, the item
  is \<open>Pending\<close> with total \<open>q1\<close> after the first batch and \<open>Completed\<close> with total \<open>quantity\<close>
  after the second. Quantities are whole piece counts, and the sum \<open>q1 + q2 = quantity\<close> of
  the hypothesis is exact: with nothing recorded before, the total after the first batch
  is \<open>q1\<close> itself, the remainder \<open>quantity - q1\<close> that the handler computes before the
  second batch is \<open>q2\<close> itself, and the total it stores then is \<open>quantity\<close> itself. Decimal
  fractions that add up on paper only (0.1 and 0.2 against 0.3) are no such sum in the
  numbers of the code, and are no piece counts.
\<close>

theorem item_status_completed_iff_total_reaches_quantity:
  "(update_callback now its u = Applied its' \<longrightarrow>
      (\<exists>it' t. find_item (item_id u) its' = Some it' \<and> team_tracking it' = Some t
          \<and> (status t = Completed \<longleftrightarrow> total_completed_qty t \<ge> quantity it')))
   \<and> (req_order_number req = Some n \<and> n \<noteq> [] \<and> req_team_type req = Some tt
        \<and> tt \<in> set validTeamTypes
        \<and> req_updates req = Some [\<lparr>item_id = i, qty_completed = 10\<rparr>]
        \<and> db n = Some ord \<and> find_item i (section_of tt (order_details ord)) = Some it
        \<and> quantity it = 10
        \<and> (team_tracking it = None
             \<or> (\<exists>t0. team_tracking it = Some t0 \<and> total_completed_qty t0 = 0)) \<longrightarrow>
      (\<exists>saved it' t. response (updateOrderProgress now db req) = Response 200 (Success saved)
          \<and> store (updateOrderProgress now db req) n = Some saved
          \<and> find_item i (section_of tt (order_details saved)) = Some it'
          \<and> team_tracking it' = Some t
          \<and> status t = Completed \<and> total_completed_qty t = 10))
   \<and> (req_order_number req1 = Some n \<and> req_order_number req2 = Some n \<and> n \<noteq> []
        \<and> req_team_type req1 = Some tt \<and> req_team_type req2 = Some tt
        \<and> tt \<in> set validTeamTypes
        \<and> req_updates req1 = Some [\<lparr>item_id = i, qty_completed = q1\<rparr>]
        \<and> req_updates req2 = Some [\<lparr>item_id = i, qty_completed = q2\<rparr>]
        \<and> db n = Some ord \<and> find_item i (section_of tt (order_details ord)) = Some it
        \<and> (team_tracking it = None
             \<or> (\<exists>t0. team_tracking it = Some t0 \<and> total_completed_qty t0 = 0))
        \<and> q1 < quantity it \<and> q1 + q2 = quantity it \<longrightarrow>
      (\<exists>saved1 saved2 it1 t1 it2 t2.
          response (updateOrderProgress now1 db req1) = Response 200 (Success saved1)
        \<and> find_item i (section_of tt (order_details saved1)) = Some it1
        \<and> team_tracking it1 = Some t1
        \<and> status t1 = Pending \<and> total_completed_qty t1 = q1
        \<and> response (updateOrderProgress now2 (store (updateOrderProgress now1 db req1)) req2)
             = Response 200 (Success saved2)
        \<and> find_item i (section_of tt (order_details saved2)) = Some it2
        \<and> team_tracking it2 = Some t2
        \<and> status t2 = Completed \<and> total_completed_qty t2 = quantity it))"
proof (intro conjI impI)
  assume "update_callback now its u = Applied its'"
  from callback_Applied_find [OF this] obtain it where
    f: "find_item (item_id u) its' = Some (record_progress now (qty_completed u) it)"
    by blast
  from record_progress_status [of now "qty_completed u" it] obtain t where
    "team_tracking (record_progress now (qty_completed u) it) = Some t"
    "status t = Completed \<longleftrightarrow> quantity it \<le> total_completed_qty t"
    by blast
  with f show "\<exists>it' t. find_item (item_id u) its' = Some it' \<and> team_tracking it' = Some t
          \<and> (status t = Completed \<longleftrightarrow> total_completed_qty t \<ge> quantity it')"
    by auto
next
  assume a: "req_order_number req = Some n \<and> n \<noteq> [] \<and> req_team_type req = Some tt
        \<and> tt \<in> set validTeamTypes
        \<and> req_updates req = Some [\<lparr>item_id = i, qty_completed = 10\<rparr>]
        \<and> db n = Some ord \<and> find_item i (section_of tt (order_details ord)) = Some it
        \<and> quantity it = 10
        \<and> (team_tracking it = None
             \<or> (\<exists>t0. team_tracking it = Some t0 \<and> total_completed_qty t0 = 0))"
  let ?u = "\<lparr>item_id = i, qty_completed = 10\<rparr>"
  have rem: "maxAllowedQty it = 10" using a by (auto simp: maxAllowedQty_def)
  then have fits: "qty_completed ?u \<le> maxAllowedQty it" by simp
  from handler_single_update [of req n tt ?u db ord it now] a fits
  obtain saved where
    s: "response (updateOrderProgress now db req) = Response 200 (Success saved)"
       "store (updateOrderProgress now db req) = db(n \<mapsto> saved)"
       "find_item i (section_of tt (order_details saved)) = Some (record_progress now 10 it)"
    by auto
  from record_progress_remaining [of now 10 it]
  obtain t where r: "team_tracking (record_progress now 10 it) = Some t"
      "total_completed_qty t = quantity it - maxAllowedQty it + 10"
      "status t = Completed \<longleftrightarrow> maxAllowedQty it \<le> 10"
    by blast
  have "status t = Completed" "total_completed_qty t = 10" using r a rem by simp_all
  then show "\<exists>saved it' t. response (updateOrderProgress now db req) = Response 200 (Success saved)
          \<and> store (updateOrderProgress now db req) n = Some saved
          \<and> find_item i (section_of tt (order_details saved)) = Some it'
          \<and> team_tracking it' = Some t
          \<and> status t = Completed \<and> total_completed_qty t = 10"
    using s r(1) by simp
next
  assume a: "req_order_number req1 = Some n \<and> req_order_number req2 = Some n \<and> n \<noteq> []
        \<and> req_team_type req1 = Some tt \<and> req_team_type req2 = Some tt
        \<and> tt \<in> set validTeamTypes
        \<and> req_updates req1 = Some [\<lparr>item_id = i, qty_completed = q1\<rparr>]
        \<and> req_updates req2 = Some [\<lparr>item_id = i, qty_completed = q2\<rparr>]
        \<and> db n = Some ord \<and> find_item i (section_of tt (order_details ord)) = Some it
        \<and> (team_tracking it = None
             \<or> (\<exists>t0. team_tracking it = Some t0 \<and> total_completed_qty t0 = 0))
        \<and> q1 < quantity it \<and> q1 + q2 = quantity it"
  let ?u1 = "\<lparr>item_id = i, qty_completed = q1\<rparr>"
  let ?u2 = "\<lparr>item_id = i, qty_completed = q2\<rparr>"
  let ?it1 = "record_progress now1 q1 it"
  let ?r1 = "updateOrderProgress now1 db req1"
  have rem: "maxAllowedQty it = quantity it" using a by (auto simp: maxAllowedQty_def)
  have fits1: "qty_completed ?u1 \<le> maxAllowedQty it" using a rem by simp
  from handler_single_update [of req1 n tt ?u1 db ord it now1] a fits1
  obtain saved1 where s1: "response ?r1 = Response 200 (Success saved1)"
     "store ?r1 = db(n \<mapsto> saved1)"
     "find_item i (section_of tt (order_details saved1)) = Some ?it1"
    by auto
  from record_progress_remaining [of now1 q1 it]
  obtain t1 where r1: "team_tracking ?it1 = Some t1"
      "total_completed_qty t1 = quantity it - maxAllowedQty it + q1"
      "status t1 = Completed \<longleftrightarrow> maxAllowedQty it \<le> q1"
    by blast
  have p1: "status t1 = Pending" using r1(3) a rem by (cases "status t1") auto
  have tot1: "total_completed_qty t1 = q1" using r1(2) rem by simp
  have fits2: "qty_completed ?u2 \<le> maxAllowedQty ?it1"
    using a rem by (simp add: maxAllowedQty_record_progress)
  have db1: "store ?r1 n = Some saved1" using s1 by simp
  from handler_single_update [of req2 n tt ?u2 "store ?r1" saved1 ?it1 now2] a fits2 db1 s1
  obtain saved2 where
    s2: "response (updateOrderProgress now2 (store ?r1) req2) = Response 200 (Success saved2)"
        "find_item i (section_of tt (order_details saved2)) = Some (record_progress now2 q2 ?it1)"
    by auto
  from record_progress_remaining [of now2 q2 ?it1]
  obtain t2 where r2: "team_tracking (record_progress now2 q2 ?it1) = Some t2"
      "total_completed_qty t2 = quantity ?it1 - maxAllowedQty ?it1 + q2"
      "status t2 = Completed \<longleftrightarrow> maxAllowedQty ?it1 \<le> q2"
    by blast
  have p2: "status t2 = Completed"
    using r2(3) a rem by (simp add: maxAllowedQty_record_progress)
  have tot2: "total_completed_qty t2 = quantity it"
    using r2(2) a rem by (simp add: maxAllowedQty_record_progress)
  show "\<exists>saved1 saved2 it1 t1 it2 t2.
          response ?r1 = Response 200 (Success saved1)
        \<and> find_item i (section_of tt (order_details saved1)) = Some it1
        \<and> team_tracking it1 = Some t1
        \<and> status t1 = Pending \<and> total_completed_qty t1 = q1
        \<and> response (updateOrderProgress now2 (store ?r1) req2)
             = Response 200 (Success saved2)
        \<and> find_item i (section_of tt (order_details saved2)) = Some it2
        \<and> team_tracking it2 = Some t2
        \<and> status t2 = Completed \<and> total_completed_qty t2 = quantity it"
    using s1 s2 r1(1) p1 tot1 r2(1) p2 tot2 by simp
qed

text \<open>
  The witness runs the three parts on the order \<open>ORD-1\<close>, whose items carry the default
  tracking: the order itself stays \<open>Pending\<close> throughout, since item \<open>b2\<close> is \<open>Pending\<close>.
\<close>

theorem item_status_completed_iff_total_reaches_quantity_witness:
  "update_callback 3 [item_A, item_B] \<lparr>item_id = ''a1'', qty_completed = 10\<rparr> =
      Applied [with_entry item_A 10 3 Completed, item_B]
   \<and> team_tracking item_A = Some default_tracking
   \<and> response (updateOrderProgress 3 store_1
         (glass_request [\<lparr>item_id = ''a1'', qty_completed = 10\<rparr>])) =
       Response 200 (Success (glass_order Pending [with_entry item_A 10 3 Completed, item_B]))
   \<and> response (updateOrderProgress 1 store_1
         (glass_request [\<lparr>item_id = ''a1'', qty_completed = 4\<rparr>])) =
       Response 200 (Success (glass_order Pending [with_entry item_A 4 1 Pending, item_B]))
   \<and> response (updateOrderProgress 2
          (store (updateOrderProgress 1 store_1
             (glass_request [\<lparr>item_id = ''a1'', qty_completed = 4\<rparr>])))
          (glass_request [\<lparr>item_id = ''a1'', qty_completed = 6\<rparr>])) =
       Response 200 (Success (glass_order Pending
         [item_A\<lparr>team_tracking := Some
            \<lparr>total_completed_qty = 10,
             completed_entries = [\<lparr>entry_qty_completed = 4, timestamp = 1\<rparr>,
                                  \<lparr>entry_qty_completed = 6, timestamp = 2\<rparr>],
             status = Completed\<rparr>\<rparr>, item_B]))
   \<and> (\<exists>saved2 it2 t2.
          response (updateOrderProgress 2
              (store (updateOrderProgress 1 store_1
                 (glass_request [\<lparr>item_id = ''a1'', qty_completed = 4\<rparr>])))
              (glass_request [\<lparr>item_id = ''a1'', qty_completed = 6\<rparr>]))
            = Response 200 (Success saved2)
        \<and> find_item ''a1'' (section_of ''glass'' (order_details saved2)) = Some it2
        \<and> team_tracking it2 = Some t2
        \<and> status t2 = Completed \<and> total_completed_qty t2 = 10)"
proof -
  let ?req1 = "glass_request [\<lparr>item_id = ''a1'', qty_completed = 4\<rparr>]"
  let ?req2 = "glass_request [\<lparr>item_id = ''a1'', qty_completed = 6\<rparr>]"
  have tracked: "team_tracking item_A = Some default_tracking"
                "total_completed_qty default_tracking = 0"
    by (simp_all add: item_A_def default_tracking_def)
  have hyp: "req_order_number ?req1 = Some ''ORD-1'' \<and> req_order_number ?req2 = Some ''ORD-1''
        \<and> ''ORD-1'' \<noteq> []
        \<and> req_team_type ?req1 = Some ''glass'' \<and> req_team_type ?req2 = Some ''glass''
        \<and> ''glass'' \<in> set validTeamTypes
        \<and> req_updates ?req1 = Some [\<lparr>item_id = ''a1'', qty_completed = 4\<rparr>]
        \<and> req_updates ?req2 = Some [\<lparr>item_id = ''a1'', qty_completed = 6\<rparr>]
        \<and> store_1 ''ORD-1'' = Some order_1
        \<and> find_item ''a1'' (section_of ''glass'' (order_details order_1)) = Some item_A
        \<and> (team_tracking item_A = None
             \<or> (\<exists>t0. team_tracking item_A = Some t0 \<and> total_completed_qty t0 = 0))
        \<and> 4 < quantity item_A \<and> 4 + 6 = quantity item_A"
    using tracked by (simp add: example_defs handler_defs)
  note t = item_status_completed_iff_total_reaches_quantity
    [where db = store_1 and n = "''ORD-1''" and tt = "''glass''" and i = "''a1''"
       and ord = order_1 and it = item_A and ?req1.0 = ?req1 and ?req2.0 = ?req2
       and ?q1.0 = 4 and ?q2.0 = 6 and ?now1.0 = 1 and ?now2.0 = 2]
  from t hyp have two:
    "\<exists>saved1 saved2 it1 t1 it2 t2.
          response (updateOrderProgress 1 store_1 ?req1) = Response 200 (Success saved1)
        \<and> find_item ''a1'' (section_of ''glass'' (order_details saved1)) = Some it1
        \<and> team_tracking it1 = Some t1
        \<and> status t1 = Pending \<and> total_completed_qty t1 = 4
        \<and> response (updateOrderProgress 2 (store (updateOrderProgress 1 store_1 ?req1)) ?req2)
            = Response 200 (Success saved2)
        \<and> find_item ''a1'' (section_of ''glass'' (order_details saved2)) = Some it2
        \<and> team_tracking it2 = Some t2
        \<and> status t2 = Completed \<and> total_completed_qty t2 = 10"
    by (simp add: item_A_def)
  have one: "update_callback 3 [item_A, item_B] \<lparr>item_id = ''a1'', qty_completed = 10\<rparr> =
      Applied [with_entry item_A 10 3 Completed, item_B]"
    by (simp add: example_defs handler_defs)
  from t [where now = 3 and its = "[item_A, item_B]"
            and u = "\<lparr>item_id = ''a1'', qty_completed = 10\<rparr>"
            and its' = "[with_entry item_A 10 3 Completed, item_B]"] one
  have part1: "\<exists>it' t. find_item ''a1'' [with_entry item_A 10 3 Completed, item_B] = Some it'
         \<and> team_tracking it' = Some t
         \<and> (status t = Completed \<longleftrightarrow> total_completed_qty t \<ge> quantity it')"
    by simp
  let ?req = "glass_request [\<lparr>item_id = ''a1'', qty_completed = 10\<rparr>]"
  have hyp2: "req_order_number ?req = Some ''ORD-1'' \<and> ''ORD-1'' \<noteq> []
        \<and> req_team_type ?req = Some ''glass'' \<and> ''glass'' \<in> set validTeamTypes
        \<and> req_updates ?req = Some [\<lparr>item_id = ''a1'', qty_completed = 10\<rparr>]
        \<and> store_1 ''ORD-1'' = Some order_1
        \<and> find_item ''a1'' (section_of ''glass'' (order_details order_1)) = Some item_A
        \<and> quantity item_A = 10
        \<and> (team_tracking item_A = None
             \<or> (\<exists>t0. team_tracking item_A = Some t0 \<and> total_completed_qty t0 = 0))"
    using tracked by (simp add: example_defs handler_defs)
  from t [where req = ?req and now = 3] hyp2
  have part2: "\<exists>saved it' t. response (updateOrderProgress 3 store_1 ?req)
            = Response 200 (Success saved)
          \<and> store (updateOrderProgress 3 store_1 ?req) ''ORD-1'' = Some saved
          \<and> find_item ''a1'' (section_of ''glass'' (order_details saved)) = Some it'
          \<and> team_tracking it' = Some t
          \<and> status t = Completed \<and> total_completed_qty t = 10"
    by blast
  have single: "response (updateOrderProgress 3 store_1 ?req) =
       Response 200 (Success (glass_order Pending [with_entry item_A 10 3 Completed, item_B]))"
    by (simp add: example_defs handler_defs Let_def)
  have first: "response (updateOrderProgress 1 store_1 ?req1) =
       Response 200 (Success (glass_order Pending [with_entry item_A 4 1 Pending, item_B]))"
    by (simp add: example_defs handler_defs Let_def)
  have second: "response (updateOrderProgress 2 (store (updateOrderProgress 1 store_1 ?req1)) ?req2) =
       Response 200 (Success (glass_order Pending
         [item_A\<lparr>team_tracking := Some
            \<lparr>total_completed_qty = 10,
             completed_entries = [\<lparr>entry_qty_completed = 4, timestamp = 1\<rparr>,
                                  \<lparr>entry_qty_completed = 6, timestamp = 2\<rparr>],
             status = Completed\<rparr>\<rparr>, item_B]))"
    by (simp add: example_defs handler_defs Let_def)
  show ?thesis using one part1 tracked(1) single part2 first second two by blast
qed

text \<open>
  Claim C3, as amended. When the handler succeeds, the order it saves has
  \<open>order_status = Completed\<close> exactly when every item of every section has tracking status
  \<open>Completed\<close> or no tracking, or the stored order was \<open>Completed\<close> already: line 929 only
  ever promotes the status, and nothing sets it back to \<open>Pending\<close>.
\<close>

theorem order_status_completed_iff_all_done_or_already_completed:
  assumes "response (updateOrderProgress now db req) = Response 200 (Success saved)"
  shows "\<exists>n ord. req_order_number req = Some n \<and> db n = Some ord
           \<and> store (updateOrderProgress now db req) n = Some saved
           \<and> (order_status saved = Completed \<longleftrightarrow>
                (\<forall>it \<in> set (glass (order_details saved)) \<union> set (caps (order_details saved))
                        \<union> set (boxes (order_details saved)) \<union> set (pumps (order_details saved)).
                    team_tracking it = None
                  \<or> (\<exists>t. team_tracking it = Some t \<and> status t = Completed))
              \<or> order_status ord = Completed)"
proof -
  from assms have "\<exists>n ord. req_order_number req = Some n \<and> db n = Some ord
           \<and> store (updateOrderProgress now db req) n = Some saved
           \<and> (order_status saved = Completed \<longleftrightarrow>
                isOrderCompleted (order_details saved) \<or> order_status ord = Completed)"
    by (auto simp: updateOrderProgress_def Let_def split: option.splits if_splits)
  then show ?thesis by (simp only: isOrderCompleted_iff)
qed

text \<open>
  The witness takes the three cases: every item done and the order promoted; an item
  \<open>Pending\<close> and the order \<open>Pending\<close>; an item \<open>Pending\<close> and the order \<open>Completed\<close> because it
  was so before the call.
\<close>

theorem order_status_completed_iff_all_done_or_already_completed_witness:
  "response (updateOrderProgress 1 store_2
       (glass_request [\<lparr>item_id = ''a1'', qty_completed = 10\<rparr>])) =
     Response 200 (Success (glass_order Completed [with_entry item_A 10 1 Completed]))
   \<and> status (the (team_tracking (with_entry item_A 10 1 Completed))) = Completed
   \<and> response (updateOrderProgress 1 store_1
       (glass_request [\<lparr>item_id = ''a1'', qty_completed = 10\<rparr>])) =
     Response 200 (Success (glass_order Pending [with_entry item_A 10 1 Completed, item_B]))
   \<and> status (the (team_tracking item_B)) = Pending
   \<and> response (updateOrderProgress 2
       (Map.empty(''ORD-1'' \<mapsto> glass_order Completed [with_entry item_A 10 1 Completed, item_B]))
       (glass_request [\<lparr>item_id = ''b2'', qty_completed = 2\<rparr>])) =
     Response 200 (Success (glass_order Completed
        [with_entry item_A 10 1 Completed, with_entry item_B 2 2 Pending]))
   \<and> status (the (team_tracking (with_entry item_B 2 2 Pending))) = Pending"
proof -
  let ?reqA = "glass_request [\<lparr>item_id = ''a1'', qty_completed = 10\<rparr>]"
  let ?reqB = "glass_request [\<lparr>item_id = ''b2'', qty_completed = 2\<rparr>]"
  let ?ord3 = "glass_order Completed [with_entry item_A 10 1 Completed, item_B]"
  let ?db3 = "Map.empty(''ORD-1'' \<mapsto> ?ord3)"
  let ?saved1 = "glass_order Completed [with_entry item_A 10 1 Completed]"
  let ?saved2 = "glass_order Pending [with_entry item_A 10 1 Completed, item_B]"
  let ?saved3 = "glass_order Completed
        [with_entry item_A 10 1 Completed, with_entry item_B 2 2 Pending]"
  note t = order_status_completed_iff_all_done_or_already_completed
  have h1: "response (updateOrderProgress 1 store_2 ?reqA) = Response 200 (Success ?saved1)"
    by (simp add: example_defs handler_defs Let_def)
  have h2: "response (updateOrderProgress 1 store_1 ?reqA) = Response 200 (Success ?saved2)"
    by (simp add: example_defs handler_defs Let_def)
  have h3: "response (updateOrderProgress 2 ?db3 ?reqB) = Response 200 (Success ?saved3)"
    by (simp add: example_defs handler_defs Let_def)
  have s: "status (the (team_tracking (with_entry item_A 10 1 Completed))) = Completed"
          "status (the (team_tracking item_B)) = Pending"
          "status (the (team_tracking (with_entry item_B 2 2 Pending))) = Pending"
    by (simp_all add: example_defs)
  from t [OF h1] t [OF h2] t [OF h3] h1 h2 h3 s
  show ?thesis by simp
qed

text \<open>
  Claim C3 as stated fails. Line 897 bounds an update from above only, so a correction
  with a negative \<open>qty_completed\<close> is applied: on an order whose only item \<open>a1\<close> has 10
  pieces, a first batch records 10 (item and order become \<open>Completed\<close>) and a second
  records -3; the item is \<open>Pending\<close> with total 7 and the saved order is still
  \<open>Completed\<close>. The same holds of any order stored as \<open>Completed\<close> with an item that is not
  done (the create and update controllers store \<open>order_status\<close> and items as given): a
  batch that records 4 of 10 saves it \<open>Completed\<close> with the item \<open>Pending\<close>.
\<close>

theorem order_completed_with_pending_item:
  "response (updateOrderProgress 1 store_2
       (glass_request [\<lparr>item_id = ''a1'', qty_completed = 10\<rparr>]))
     = Response 200 (Success (glass_order Completed [with_entry item_A 10 1 Completed]))
   \<and> response (updateOrderProgress 2
       (store (updateOrderProgress 1 store_2
          (glass_request [\<lparr>item_id = ''a1'', qty_completed = 10\<rparr>])))
       (glass_request [\<lparr>item_id = ''a1'', qty_completed = - 3\<rparr>]))
     = Response 200 (Success (glass_order Completed [item_A_reduced]))
   \<and> order_status (glass_order Completed [item_A_reduced]) = Completed
   \<and> glass (order_details (glass_order Completed [item_A_reduced])) = [item_A_reduced]
   \<and> team_tracking item_A_reduced \<noteq> None
   \<and> status (the (team_tracking item_A_reduced)) = Pending
   \<and> response (updateOrderProgress 1
       (Map.empty(''ORD-1'' \<mapsto> glass_order Completed [item_A]))
       (glass_request [\<lparr>item_id = ''a1'', qty_completed = 4\<rparr>]))
     = Response 200 (Success (glass_order Completed [with_entry item_A 4 1 Pending]))"
  by (simp add: example_defs handler_defs Let_def)

text \<open>
  Claim C9, in the order of the handler's checks. (1) For a request with a non-empty
  \<open>order_number\<close> and \<open>team_type\<close> and an \<open>updates\<close> array, if no order is stored under the
  number, the answer is 404 \<^verbatim>\<open>Order not found\<close>. (2) If the order exists and \<open>team_type\<close> is
  not one of \<open>glass\<close>, \<open>caps\<close>, \<open>boxes\<close>, \<open>pumps\<close>, the answer is 400 \<^verbatim>\<open>Invalid team type\<close>.
  (3) Whatever else the request holds, when \<open>team_type\<close> is missing or not one of the four
  and the order number given (if any) is stored, the answer is a 400. The store is
  unchanged in all three. (4) In the loop, an update whose \<open>item_id\<close> matches no item of the
  section is skipped: its identifier is logged as a warning, the items stay as they were,
  and the rest of the batch runs from there. (5) So for a well-formed request on a stored
  order whose batch is \<open>pre @ u # post\<close>, where \<open>pre\<close> runs without an exception and \<open>u\<close>
  matches no item, the handler logs the warnings of \<open>pre\<close>, then the identifier of \<open>u\<close>, then
  the warnings of \<open>post\<close>; if \<open>post\<close> runs without an exception the handler answers 200 and
  saves the order with the section as \<open>post\<close> left it, and if \<open>post\<close> throws it answers 500
  with that exception: the unmatched update itself never fails the batch.
\<close>

theorem not_found_invalid_team_and_missing_item_skip:
  "(req_order_number req = Some n \<and> n \<noteq> [] \<and> req_team_type req = Some tt \<and> tt \<noteq> []
      \<and> req_updates req = Some us \<and> db n = None \<longrightarrow>
        response (updateOrderProgress now db req) = Response 404 OrderNotFound
      \<and> store (updateOrderProgress now db req) = db)
   \<and> (req_order_number req = Some n \<and> n \<noteq> [] \<and> req_team_type req = Some tt \<and> tt \<noteq> []
      \<and> req_updates req = Some us \<and> db n = Some ord \<and> tt \<notin> set validTeamTypes \<longrightarrow>
        response (updateOrderProgress now db req) = Response 400 InvalidTeamType
      \<and> store (updateOrderProgress now db req) = db)
   \<and> (req_team_type req \<notin> Some ` set validTeamTypes
      \<and> (req_order_number req = None \<or> (req_order_number req = Some n \<and> db n = Some ord)) \<longrightarrow>
        (response (updateOrderProgress now db req) = Response 400 InvalidRequest
         \<or> response (updateOrderProgress now db req) = Response 400 InvalidTeamType)
      \<and> store (updateOrderProgress now db req) = db)
   \<and> (forEach_updates now its pre = \<lparr>items_after = its1, warnings = ws, thrown = None\<rparr>
      \<and> find_item (item_id u) its1 = None \<longrightarrow>
        forEach_updates now its (pre @ u # post) =
          (let r = forEach_updates now its1 post
           in r\<lparr>warnings := ws @ item_id u # warnings r\<rparr>)
      \<and> update_callback now its1 u = Skipped)
   \<and> (req_order_number req = Some n \<and> n \<noteq> [] \<and> req_team_type req = Some tt
      \<and> tt \<in> set validTeamTypes \<and> req_updates req = Some (pre @ u # post)
      \<and> db n = Some ord
      \<and> forEach_updates now (section_of tt (order_details ord)) pre =
            \<lparr>items_after = its1, warnings = ws, thrown = None\<rparr>
      \<and> find_item (item_id u) its1 = None \<longrightarrow>
        logged (updateOrderProgress now db req) =
          ws @ item_id u # warnings (forEach_updates now its1 post)
      \<and> (thrown (forEach_updates now its1 post) = None \<longrightarrow>
           (\<exists>saved. response (updateOrderProgress now db req) = Response 200 (Success saved)
              \<and> store (updateOrderProgress now db req) = db(n \<mapsto> saved)
              \<and> section_of tt (order_details saved) =
                    items_after (forEach_updates now its1 post)))
      \<and> (thrown (forEach_updates now its1 post) = Some e \<longrightarrow>
           response (updateOrderProgress now db req) = Response 500 (ExceptionMessage e)
         \<and> store (updateOrderProgress now db req) = db))"
proof (intro conjI impI)
  assume a: "req_order_number req = Some n \<and> n \<noteq> [] \<and> req_team_type req = Some tt
      \<and> tt \<in> set validTeamTypes \<and> req_updates req = Some (pre @ u # post)
      \<and> db n = Some ord
      \<and> forEach_updates now (section_of tt (order_details ord)) pre =
            \<lparr>items_after = its1, warnings = ws, thrown = None\<rparr>
      \<and> find_item (item_id u) its1 = None"
  let ?r = "forEach_updates now its1 post"
  have loop: "forEach_updates now (section_of tt (order_details ord)) (pre @ u # post) =
      ?r\<lparr>warnings := ws @ item_id u # warnings ?r\<rparr>"
    using a by (simp add: forEach_append callback_Skipped Let_def)
  note h = handler_valid [of req n tt "pre @ u # post" db ord now]
  show "logged (updateOrderProgress now db req) = ws @ item_id u # warnings ?r"
    using h a loop by (simp add: Let_def split: option.splits)
  {
    assume ok: "thrown ?r = None"
    show "\<exists>saved. response (updateOrderProgress now db req) = Response 200 (Success saved)
              \<and> store (updateOrderProgress now db req) = db(n \<mapsto> saved)
              \<and> section_of tt (order_details saved) = items_after ?r"
      using h a loop ok by (simp add: Let_def)
  }
  {
    assume ex: "thrown ?r = Some e"
    show "response (updateOrderProgress now db req) = Response 500 (ExceptionMessage e)"
      using h a loop ex by (simp add: Let_def)
    show "store (updateOrderProgress now db req) = db"
      using h a loop ex by (simp add: Let_def)
  }
next
  assume a: "req_team_type req \<notin> Some ` set validTeamTypes
      \<and> (req_order_number req = None \<or> (req_order_number req = Some n \<and> db n = Some ord))"
  then show "response (updateOrderProgress now db req) = Response 400 InvalidRequest
         \<or> response (updateOrderProgress now db req) = Response 400 InvalidTeamType"
    by (auto simp: updateOrderProgress_def split: option.splits)
  from a show "store (updateOrderProgress now db req) = db"
    by (auto simp: updateOrderProgress_def split: option.splits)
next
  assume "forEach_updates now its pre = \<lparr>items_after = its1, warnings = ws, thrown = None\<rparr>
      \<and> find_item (item_id u) its1 = None"
  then show "forEach_updates now its (pre @ u # post) =
          (let r = forEach_updates now its1 post
           in r\<lparr>warnings := ws @ item_id u # warnings r\<rparr>)"
    by (simp add: forEach_append callback_Skipped Let_def)
qed (simp_all add: updateOrderProgress_def callback_Skipped)

theorem not_found_invalid_team_and_missing_item_skip_witness:
  "response (updateOrderProgress 1 store_1
       \<lparr>req_order_number = Some ''ORD-9'', req_team_type = Some ''glass'',
        req_updates = Some []\<rparr>) = Response 404 OrderNotFound
   \<and> response (updateOrderProgress 1 store_1
       \<lparr>req_order_number = Some ''ORD-1'', req_team_type = Some ''cap'',
        req_updates = Some []\<rparr>) = Response 400 InvalidTeamType
   \<and> response (updateOrderProgress 1 store_1
       \<lparr>req_order_number = Some ''ORD-1'', req_team_type = None,
        req_updates = Some []\<rparr>) = Response 400 InvalidRequest
   \<and> forEach_updates 1 [item_A, item_B]
        ([\<lparr>item_id = ''a1'', qty_completed = 4\<rparr>] @ \<lparr>item_id = ''zz'', qty_completed = 1\<rparr>
           # [\<lparr>item_id = ''b2'', qty_completed = 5\<rparr>]) =
       \<lparr>items_after = [with_entry item_A 4 1 Pending, with_entry item_B 5 1 Completed],
        warnings = [''zz''], thrown = None\<rparr>
   \<and> updateOrderProgress 1 store_1
        (glass_request ([\<lparr>item_id = ''a1'', qty_completed = 4\<rparr>]
           @ \<lparr>item_id = ''zz'', qty_completed = 1\<rparr> # [\<lparr>item_id = ''b2'', qty_completed = 5\<rparr>])) =
       \<lparr>response = Response 200 (Success (glass_order Pending
            [with_entry item_A 4 1 Pending, with_entry item_B 5 1 Completed])),
        store = store_1(''ORD-1'' \<mapsto> glass_order Pending
            [with_entry item_A 4 1 Pending, with_entry item_B 5 1 Completed]),
        in_memory = Some (glass_order Pending
            [with_entry item_A 4 1 Pending, with_entry item_B 5 1 Completed]),
        logged = [''zz'']\<rparr>
   \<and> updateOrderProgress 1 store_1
        (glass_request ([\<lparr>item_id = ''a1'', qty_completed = 4\<rparr>]
           @ \<lparr>item_id = ''zz'', qty_completed = 1\<rparr> # [\<lparr>item_id = ''b2'', qty_completed = 6\<rparr>])) =
       \<lparr>response = Response 500 (ExceptionMessage (QuantityExceeded ''b2'' 5)),
        store = store_1,
        in_memory = Some (glass_order Pending [with_entry item_A 4 1 Pending, item_B]),
        logged = [''zz'']\<rparr>"
proof -
  let ?r404 = "\<lparr>req_order_number = Some ''ORD-9'', req_team_type = Some ''glass'',
        req_updates = Some []\<rparr>"
  let ?r400 = "\<lparr>req_order_number = Some ''ORD-1'', req_team_type = Some ''cap'',
        req_updates = Some []\<rparr>"
  let ?its1 = "[with_entry item_A 4 1 Pending, item_B]"
  let ?u = "\<lparr>item_id = ''zz'', qty_completed = 1\<rparr>"
  have h1: "req_order_number ?r404 = Some ''ORD-9'' \<and> ''ORD-9'' \<noteq> []
      \<and> req_team_type ?r404 = Some ''glass'' \<and> ''glass'' \<noteq> []
      \<and> req_updates ?r404 = Some [] \<and> store_1 ''ORD-9'' = None"
    by (simp add: store_1_def)
  have h2: "req_order_number ?r400 = Some ''ORD-1'' \<and> ''ORD-1'' \<noteq> []
      \<and> req_team_type ?r400 = Some ''cap'' \<and> ''cap'' \<noteq> []
      \<and> req_updates ?r400 = Some [] \<and> store_1 ''ORD-1'' = Some order_1
      \<and> ''cap'' \<notin> set validTeamTypes"
    by (simp add: store_1_def validTeamTypes_def)
  have h3: "forEach_updates 1 [item_A, item_B] [\<lparr>item_id = ''a1'', qty_completed = 4\<rparr>] =
       \<lparr>items_after = ?its1, warnings = [], thrown = None\<rparr>
      \<and> find_item (item_id ?u) ?its1 = None"
    by (simp add: example_defs handler_defs)
  have c1: "response (updateOrderProgress 1 store_1 ?r404) = Response 404 OrderNotFound"
    using not_found_invalid_team_and_missing_item_skip
      [where req = ?r404 and db = store_1 and n = "''ORD-9''" and tt = "''glass''"
         and us = "[]" and now = 1] h1
    by simp
  have c2: "response (updateOrderProgress 1 store_1 ?r400) = Response 400 InvalidTeamType"
    using not_found_invalid_team_and_missing_item_skip
      [where req = ?r400 and db = store_1 and n = "''ORD-1''" and tt = "''cap''"
         and us = "[]" and now = 1 and ord = order_1] h2
    by simp
  let ?rbad = "\<lparr>req_order_number = Some ''ORD-1'', req_team_type = None,
        req_updates = Some []\<rparr>"
  have h2b: "req_team_type ?rbad \<notin> Some ` set validTeamTypes
      \<and> (req_order_number ?rbad = None
          \<or> (req_order_number ?rbad = Some ''ORD-1'' \<and> store_1 ''ORD-1'' = Some order_1))"
    by (simp add: store_1_def)
  have c2b: "response (updateOrderProgress 1 store_1 ?rbad) = Response 400 InvalidRequest
         \<or> response (updateOrderProgress 1 store_1 ?rbad) = Response 400 InvalidTeamType"
    using not_found_invalid_team_and_missing_item_skip
      [where req = ?rbad and db = store_1 and n = "''ORD-1''" and now = 1 and ord = order_1] h2b
    by blast
  have c3: "forEach_updates 1 [item_A, item_B]
        ([\<lparr>item_id = ''a1'', qty_completed = 4\<rparr>] @ ?u
           # [\<lparr>item_id = ''b2'', qty_completed = 5\<rparr>]) =
          (let r = forEach_updates 1 ?its1 [\<lparr>item_id = ''b2'', qty_completed = 5\<rparr>]
           in r\<lparr>warnings := [] @ item_id ?u # warnings r\<rparr>)"
    using not_found_invalid_team_and_missing_item_skip
      [where now = 1 and its = "[item_A, item_B]"
         and pre = "[\<lparr>item_id = ''a1'', qty_completed = 4\<rparr>]" and ?its1.0 = ?its1
         and ws = "[]" and u = ?u and post = "[\<lparr>item_id = ''b2'', qty_completed = 5\<rparr>]"] h3
    by blast
  let ?pre = "[\<lparr>item_id = ''a1'', qty_completed = 4\<rparr>]"
  let ?ok = "[\<lparr>item_id = ''b2'', qty_completed = 5\<rparr>]"
  let ?bad = "[\<lparr>item_id = ''b2'', qty_completed = 6\<rparr>]"
  let ?saved = "glass_order Pending
            [with_entry item_A 4 1 Pending, with_entry item_B 5 1 Completed]"
  have h5: "\<And>post. req_order_number (glass_request (?pre @ ?u # post)) = Some ''ORD-1''
      \<and> ''ORD-1'' \<noteq> [] \<and> req_team_type (glass_request (?pre @ ?u # post)) = Some ''glass''
      \<and> ''glass'' \<in> set validTeamTypes
      \<and> req_updates (glass_request (?pre @ ?u # post)) = Some (?pre @ ?u # post)
      \<and> store_1 ''ORD-1'' = Some order_1
      \<and> forEach_updates 1 (section_of ''glass'' (order_details order_1)) ?pre =
            \<lparr>items_after = ?its1, warnings = [], thrown = None\<rparr>
      \<and> find_item (item_id ?u) ?its1 = None"
    by (simp add: example_defs handler_defs)
  have rest: "forEach_updates 1 ?its1 ?ok =
        \<lparr>items_after = [with_entry item_A 4 1 Pending, with_entry item_B 5 1 Completed],
         warnings = [], thrown = None\<rparr>"
      "forEach_updates 1 ?its1 ?bad =
        \<lparr>items_after = ?its1, warnings = [],
         thrown = Some (QuantityExceeded ''b2'' 5)\<rparr>"
    by (simp_all add: example_defs handler_defs)
  note t5ok = not_found_invalid_team_and_missing_item_skip
      [where req = "glass_request (?pre @ ?u # ?ok)" and db = store_1 and n = "''ORD-1''"
         and tt = "''glass''" and now = 1 and ord = order_1 and pre = ?pre and u = ?u
         and post = ?ok and ?its1.0 = ?its1 and ws = "[]"]
  note t5bad = not_found_invalid_team_and_missing_item_skip
      [where req = "glass_request (?pre @ ?u # ?bad)" and db = store_1 and n = "''ORD-1''"
         and tt = "''glass''" and now = 1 and ord = order_1 and pre = ?pre and u = ?u
         and post = ?bad and ?its1.0 = ?its1 and ws = "[]"
         and e = "QuantityExceeded ''b2'' 5"]
  have c5: "logged (updateOrderProgress 1 store_1 (glass_request (?pre @ ?u # ?ok))) = [''zz'']"
      "\<exists>saved. response (updateOrderProgress 1 store_1 (glass_request (?pre @ ?u # ?ok)))
              = Response 200 (Success saved)
          \<and> store (updateOrderProgress 1 store_1 (glass_request (?pre @ ?u # ?ok)))
              = store_1(''ORD-1'' \<mapsto> saved)
          \<and> section_of ''glass'' (order_details saved) =
              [with_entry item_A 4 1 Pending, with_entry item_B 5 1 Completed]"
    using t5ok h5 [of ?ok] rest(1) by simp_all
  have c6: "response (updateOrderProgress 1 store_1 (glass_request (?pre @ ?u # ?bad)))
              = Response 500 (ExceptionMessage (QuantityExceeded ''b2'' 5))"
      "logged (updateOrderProgress 1 store_1 (glass_request (?pre @ ?u # ?bad))) = [''zz'']"
    using t5bad h5 [of ?bad] rest(2) by simp_all
  have full: "updateOrderProgress 1 store_1 (glass_request (?pre @ ?u # ?ok)) =
       \<lparr>response = Response 200 (Success ?saved),
        store = store_1(''ORD-1'' \<mapsto> ?saved),
        in_memory = Some ?saved, logged = [''zz'']\<rparr>"
     "updateOrderProgress 1 store_1 (glass_request (?pre @ ?u # ?bad)) =
       \<lparr>response = Response 500 (ExceptionMessage (QuantityExceeded ''b2'' 5)),
        store = store_1,
        in_memory = Some (glass_order Pending [with_entry item_A 4 1 Pending, item_B]),
        logged = [''zz'']\<rparr>"
    by (simp_all add: example_defs handler_defs Let_def)
  show ?thesis using c1 c2 c2b c3 c5 c6 full
    by (simp add: example_defs handler_defs Let_def)
qed

text \<open>
  Claim C10. When the loop of a well-formed request throws \<^verbatim>\<open>Quantity exceeded\<close>, the
  handler never reaches \<^verbatim>\<open>order.save()\<close>: the store after the call is the store before it,
  the caller gets status 500 with the exception's message, and the order object in memory
  holds the items as the loop left them (the updates applied before the throw).
\<close>

theorem quantity_exceeded_leaves_store_unchanged:
  assumes req: "req_order_number req = Some n" "n \<noteq> []"
               "req_team_type req = Some tt" "tt \<in> set validTeamTypes"
               "req_updates req = Some updates"
      and db: "db n = Some ord"
      and thrown: "thrown (forEach_updates now (section_of tt (order_details ord)) updates)
                     = Some (QuantityExceeded i m)"
  shows "store (updateOrderProgress now db req) = db
       \<and> response (updateOrderProgress now db req)
           = Response 500 (ExceptionMessage (QuantityExceeded i m))
       \<and> in_memory (updateOrderProgress now db req) =
           Some (ord\<lparr>order_details := set_section tt
                   (items_after (forEach_updates now (section_of tt (order_details ord)) updates))
                   (order_details ord)\<rparr>)"
  using handler_valid [of req n tt updates db ord now] req db thrown
  by (simp add: Let_def)

theorem quantity_exceeded_leaves_store_unchanged_witness:
  "thrown (forEach_updates 7 (section_of ''glass'' (order_details order_1))
      [\<lparr>item_id = ''b2'', qty_completed = 5\<rparr>, \<lparr>item_id = ''a1'', qty_completed = 11\<rparr>])
     = Some (QuantityExceeded ''a1'' 10)
   \<and> store (updateOrderProgress 7 store_1
        (glass_request [\<lparr>item_id = ''b2'', qty_completed = 5\<rparr>,
                        \<lparr>item_id = ''a1'', qty_completed = 11\<rparr>])) = store_1
   \<and> response (updateOrderProgress 7 store_1
        (glass_request [\<lparr>item_id = ''b2'', qty_completed = 5\<rparr>,
                        \<lparr>item_id = ''a1'', qty_completed = 11\<rparr>]))
       = Response 500 (ExceptionMessage (QuantityExceeded ''a1'' 10))
   \<and> in_memory (updateOrderProgress 7 store_1
        (glass_request [\<lparr>item_id = ''b2'', qty_completed = 5\<rparr>,
                        \<lparr>item_id = ''a1'', qty_completed = 11\<rparr>]))
       = Some (glass_order Pending [item_A, with_entry item_B 5 7 Completed])
   \<and> store_1 ''ORD-1'' = Some (glass_order Pending [item_A, item_B])"
proof -
  let ?us = "[\<lparr>item_id = ''b2'', qty_completed = 5\<rparr>, \<lparr>item_id = ''a1'', qty_completed = 11\<rparr>]"
  let ?req = "glass_request ?us"
  have r: "req_order_number ?req = Some ''ORD-1''" "''ORD-1'' \<noteq> []"
          "req_team_type ?req = Some ''glass''" "''glass'' \<in> set validTeamTypes"
          "req_updates ?req = Some ?us"
    by (simp_all add: glass_request_def validTeamTypes_def)
  have db: "store_1 ''ORD-1'' = Some order_1" by (simp add: store_1_def)
  have thrown: "thrown (forEach_updates 7 (section_of ''glass'' (order_details order_1)) ?us)
      = Some (QuantityExceeded ''a1'' 10)"
    by (simp add: example_defs handler_defs)
  note t = quantity_exceeded_leaves_store_unchanged
    [where db = store_1 and now = 7, OF r db thrown]
  show ?thesis using t thrown
    by (simp add: example_defs handler_defs)
qed

section \<open>Facts about normalization\<close>









lemmas normalize_defs = normalizeTeam_def normalize_opt_def trim_def toLowerCase_def
  toLowerCase_char_def is_whitespace_def Let_def char_of_eq_iff

section \<open>Facts about the registry\<close>



lemma rooms_add_and_join:
  "rooms (add_and_join sid name s) sid' =
     (if sid' = sid then insert name (rooms s sid') else rooms s sid')"
  by (simp add: add_and_join_def)












lemmas registry_defs = register_def on_connection_def addUserToTeams_def join_if_valid_def
  teamMembers_property_def team_keys_def add_and_join_def removeUserFromTeams_def
  registry_0_def user_with_def truthy_def

text \<open>No room is ever left: \<open>register\<close> can only add rooms to a socket.\<close>

lemma join_if_valid_keeps_rooms:
  "r \<in> rooms s sid' \<Longrightarrow> r \<in> rooms (fst (join_if_valid sid name s)) sid'"
  by (auto simp: join_if_valid_def rooms_add_and_join split: property.splits)

lemma addUserToTeams_keeps_rooms:
  assumes "r \<in> rooms s sid'"
  shows "r \<in> rooms (fst (addUserToTeams sid ui s)) sid'"
proof -
  define s1 where "s1 = (if role ui = Some ''admin'' \<or> role ui = Some ''dispatcher''
                then add_and_join sid ''dispatchers'' s else s)"
  define r2 where "r2 = (case team ui of
                  None \<Rightarrow> (s1, None)
                | Some t \<Rightarrow> if t = [] then (s1, None) else join_if_valid sid (normalizeTeam t) s1)"
  have unfold: "addUserToTeams sid ui s =
      (case r2 of
           (s2, Some e) \<Rightarrow> (s2, Some e)
         | (s2, None) \<Rightarrow>
             (case teamType ui of
                None \<Rightarrow> (s2, None)
              | Some tt \<Rightarrow>
                  if tt = [] \<or> teamType ui = team ui then (s2, None)
                  else join_if_valid sid (normalizeTeam tt) s2))"
    unfolding addUserToTeams_def Let_def r2_def s1_def by (rule refl)
  have "r \<in> rooms s1 sid'" using assms by (auto simp: s1_def rooms_add_and_join)
  then have m2: "r \<in> rooms (fst r2) sid'"
    by (auto simp: r2_def join_if_valid_keeps_rooms split: option.splits)
  obtain s2 e2 where r2: "r2 = (s2, e2)" by (cases r2)
  show ?thesis
    using m2 r2 unfold
    by (cases e2) (auto simp: join_if_valid_keeps_rooms split: option.splits)
qed

lemma register_keeps_rooms:
  "r \<in> rooms s sid' \<Longrightarrow> r \<in> rooms (fst (register now sid d s)) sid'"
  unfolding register_def Let_def
  by (rule addUserToTeams_keeps_rooms) (simp add: removeUserFromTeams_def)









section \<open>Claims about the session registry\<close>




text \<open>
  Claim C5 fails on the code. \<open>register\<close> clears the socket from the five sets of
  \<open>teamMembers\<close> (\<open>register_member\<close>), but \<open>removeUserFromTeams\<close> leaves no room, while
  \<open>addUserToTeams\<close> joins a room with every set it adds to: a registration never takes a
  room away (\<open>register_keeps_rooms\<close>). A socket that registers for \<open>glass\<close> and then for
  \<open>cap\<close> is in the set of \<open>cap\<close> only, but still in the room \<open>glass\<close>: a \<open>new-order\<close>
  event for the glass team still reaches it.
\<close>

theorem stale_room_after_reregistration:
  "snd (register 1 ''s1'' (user_with ''worker'' ''glass'') registry_0) = None
   \<and> snd (register 2 ''s1'' (user_with ''worker'' ''cap'') registry_glass) = None
   \<and> ''s1'' \<in> teamMembers registry_glass ''glass''
   \<and> ''s1'' \<notin> teamMembers registry_cap ''glass''
   \<and> ''s1'' \<in> teamMembers registry_cap ''cap''
   \<and> rooms registry_cap ''s1'' = {''cap'', ''glass''}
   \<and> ''s1'' \<in> receivers registry_cap (ToRoom ''glass'')
   \<and> \<lparr>target = ToRoom ''glass'', event = ''new-order'',
       payload = OrderWithMeta (payload_with no_sections)
         \<lparr>by_user = None, meta_timestamp = ''t'', targetTeams = [''glass'']\<rparr>\<rparr>
       \<in> set (create_order ''t'' ''s9'' registry_cap
         \<lparr>ev_order = Some (payload_with no_sections), ev_teamTypes = Some [''glass''],
          ev_timestamp = None\<rparr>)"
  by (simp add: registry_glass_def registry_cap_def registry_defs normalize_defs Let_def
        receivers_def create_order_def create_targetTeams_def timestamp_or_def)

section \<open>Facts about the order events\<close>

lemma normalizeTeam_names:
  "normalizeTeam ''glass'' = ''glass''" "normalizeTeam ''cap'' = ''cap''"
  "normalizeTeam ''box'' = ''box''" "normalizeTeam ''pump'' = ''pump''"
  "normalizeTeam ''unassigned'' = ''unassigned''"
  by (simp_all add: normalize_defs)

lemma map_normalizeTeam_section_teams:
  "map normalizeTeam (section_teams ord) = section_teams ord"
  by (simp add: section_teams_def normalizeTeam_names)

lemma set_section_teams:
  "set (section_teams ord) =
     {g. (g = ''glass'' \<and> has_items ord p_glass) \<or> (g = ''cap'' \<and> has_items ord p_caps)
       \<or> (g = ''box'' \<and> has_items ord p_boxes) \<or> (g = ''pump'' \<and> has_items ord p_pumps)}"
  by (auto simp: section_teams_def)

lemma section_teams_Nil:
  "section_teams ord = [] \<longleftrightarrow>
     \<not> has_items ord p_glass \<and> \<not> has_items ord p_caps
     \<and> \<not> has_items ord p_boxes \<and> \<not> has_items ord p_pumps"
  by (simp add: section_teams_def)

lemma sent_to_Nil [simp]: "sent_to sid [] = []"
  by (simp add: sent_to_def)

lemma sent_to_Cons [simp]:
  "sent_to sid (e # es) = (if target e = ToSocket sid then e # sent_to sid es else sent_to sid es)"
  by (simp add: sent_to_def)

lemma sent_to_rooms [simp]:
  "sent_to sid (map (\<lambda>team. \<lparr>target = ToRoom (f team), event = e, payload = p\<rparr>) teams) = []"
  by (induction teams) simp_all

lemma sent_to_append [simp]: "sent_to sid (xs @ ys) = sent_to sid xs @ sent_to sid ys"
  by (simp add: sent_to_def)

lemmas event_defs = create_order_def delete_order_def create_targetTeams_def
  delete_targetTeams_def section_teams_def has_items_def timestamp_or_def truthy_def
  payload_with_def no_sections_def caps_only_def event_for_def registry_0_def

section \<open>Claims about the broadcast router\<close>

text \<open>
  Claim C6, as amended. With no explicit groups (no \<open>teamTypes\<close>, or an empty array), the
  target teams of \<open>create-order\<close> and of \<open>delete-order\<close> are the groups of the sections with at
  least one item, under the names \<open>glass\<close>, \<open>cap\<close>, \<open>box\<close>, \<open>pump\<close>: an order with only a
  non-empty caps section resolves to \<open>cap\<close>. When no section has an item, \<open>create-order\<close>
  falls back to \<open>unassigned\<close>; \<open>delete-order\<close> has no fallback and resolves to no group.
\<close>

theorem target_teams_from_sections:
  "(teamTypes = None \<or> teamTypes = Some [] \<longrightarrow>
      set (delete_targetTeams ord teamTypes) =
        {g. (g = ''glass'' \<and> has_items ord p_glass) \<or> (g = ''cap'' \<and> has_items ord p_caps)
          \<or> (g = ''box'' \<and> has_items ord p_boxes) \<or> (g = ''pump'' \<and> has_items ord p_pumps)}
    \<and> set (create_targetTeams ord teamTypes) =
        (if has_items ord p_glass \<or> has_items ord p_caps
            \<or> has_items ord p_boxes \<or> has_items ord p_pumps
         then set (delete_targetTeams ord teamTypes) else {''unassigned''}))
   \<and> ((teamTypes = None \<or> teamTypes = Some []) \<and> has_items ord p_caps
        \<and> \<not> has_items ord p_glass \<and> \<not> has_items ord p_boxes \<and> \<not> has_items ord p_pumps \<longrightarrow>
        create_targetTeams ord teamTypes = [''cap'']
      \<and> delete_targetTeams ord teamTypes = [''cap''])
   \<and> ((teamTypes = None \<or> teamTypes = Some []) \<and> \<not> has_items ord p_caps
        \<and> \<not> has_items ord p_glass \<and> \<not> has_items ord p_boxes \<and> \<not> has_items ord p_pumps \<longrightarrow>
        create_targetTeams ord teamTypes = [''unassigned'']
      \<and> delete_targetTeams ord teamTypes = [])"
proof -
  have d: "teamTypes = None \<or> teamTypes = Some [] \<Longrightarrow>
           delete_targetTeams ord teamTypes = section_teams ord"
    by (auto simp: delete_targetTeams_def)
  have c: "teamTypes = None \<or> teamTypes = Some [] \<Longrightarrow>
           create_targetTeams ord teamTypes =
             (if section_teams ord = [] then [''unassigned''] else section_teams ord)"
    by (auto simp: create_targetTeams_def map_normalizeTeam_section_teams normalizeTeam_names)
  show ?thesis
    using c d
    by (auto simp: set_section_teams section_teams_Nil) (simp_all add: section_teams_def)
qed

theorem target_teams_from_sections_witness:
  "create_targetTeams (payload_with caps_only) None = [''cap'']
   \<and> delete_targetTeams (payload_with caps_only) None = [''cap'']
   \<and> create_targetTeams (payload_with no_sections) (Some []) = [''unassigned'']
   \<and> delete_targetTeams (payload_with no_sections) (Some []) = []"
proof -
  have h1: "(None = None \<or> None = Some ([] :: string list)) \<and> has_items (payload_with caps_only) p_caps
        \<and> \<not> has_items (payload_with caps_only) p_glass
        \<and> \<not> has_items (payload_with caps_only) p_boxes
        \<and> \<not> has_items (payload_with caps_only) p_pumps"
    by (simp add: event_defs)
  have h2: "(Some [] = None \<or> Some [] = Some ([] :: string list))
        \<and> \<not> has_items (payload_with no_sections) p_caps
        \<and> \<not> has_items (payload_with no_sections) p_glass
        \<and> \<not> has_items (payload_with no_sections) p_boxes
        \<and> \<not> has_items (payload_with no_sections) p_pumps"
    by (simp add: event_defs)
  show ?thesis
    using target_teams_from_sections [of None "payload_with caps_only"] h1
          target_teams_from_sections [of "Some []" "payload_with no_sections"] h2
    by blast
qed

text \<open>
  Claim C6 as stated fails for \<open>delete-order\<close>: for an order whose sections are all empty
  and no explicit groups, the handler resolves to no group at all (it emits to the
  dispatchers and to the sender only), not to \<open>unassigned\<close>. And the group of the caps
  section is named \<open>cap\<close>, not \<open>caps\<close>.
\<close>

theorem delete_has_no_unassigned_fallback:
  "delete_targetTeams (payload_with no_sections) None = []
   \<and> delete_order ''t'' ''s1'' registry_0 (event_for (payload_with no_sections)) =
       [\<lparr>target = ToRoom ''dispatchers'', event = ''order-deleted'',
         payload = OrderWithMeta (payload_with no_sections)
           \<lparr>by_user = None, meta_timestamp = ''t'', targetTeams = []\<rparr>\<rparr>,
        \<lparr>target = ToSocket ''s1'', event = ''order-delete-confirmed'',
         payload = DeleteConfirmed (Some ''65f0'') (Some ''ORD-1'') ''deleted'' ''t''\<rparr>]
   \<and> create_targetTeams (payload_with caps_only) None = [''cap'']"
  by (simp add: event_defs normalizeTeam_names)

text \<open>
  Claim C7. Whenever \<open>create-order\<close> carries an order, the handler emits \<open>new-order\<close> with
  that order to the room \<open>dispatchers\<close>; whenever \<open>delete-order\<close> carries an order with an
  identifier, the handler emits \<open>order-deleted\<close> with that order to the room \<open>dispatchers\<close>.
  Neither depends on the target teams.
\<close>

theorem dispatchers_always_notified:
  "(ev_order data = Some ord \<longrightarrow>
      \<lparr>target = ToRoom ''dispatchers'', event = ''new-order'',
       payload = OrderWithMeta ord
         \<lparr>by_user = connectedUsers s sid,
          meta_timestamp = timestamp_or (ev_timestamp data) now,
          targetTeams = create_targetTeams ord (ev_teamTypes data)\<rparr>\<rparr>
      \<in> set (create_order now sid s data))
   \<and> (ev_order data = Some ord \<and> truthy (p_id ord) \<longrightarrow>
      \<lparr>target = ToRoom ''dispatchers'', event = ''order-deleted'',
       payload = OrderWithMeta ord
         \<lparr>by_user = connectedUsers s sid,
          meta_timestamp = timestamp_or (ev_timestamp data) now,
          targetTeams = delete_targetTeams ord (ev_teamTypes data)\<rparr>\<rparr>
      \<in> set (delete_order now sid s data))"
  by (simp add: create_order_def delete_order_def Let_def)

theorem dispatchers_always_notified_witness:
  "''dispatchers'' \<notin> set (create_targetTeams (payload_with caps_only) None)
   \<and> \<lparr>target = ToRoom ''dispatchers'', event = ''new-order'',
       payload = OrderWithMeta (payload_with caps_only)
         \<lparr>by_user = None, meta_timestamp = ''t'', targetTeams = [''cap'']\<rparr>\<rparr>
      \<in> set (create_order ''t'' ''s1'' registry_0 (event_for (payload_with caps_only)))
   \<and> ''dispatchers'' \<notin> set (delete_targetTeams (payload_with caps_only) None)
   \<and> \<lparr>target = ToRoom ''dispatchers'', event = ''order-deleted'',
       payload = OrderWithMeta (payload_with caps_only)
         \<lparr>by_user = None, meta_timestamp = ''t'', targetTeams = [''cap'']\<rparr>\<rparr>
      \<in> set (delete_order ''t'' ''s1'' registry_0 (event_for (payload_with caps_only)))"
proof -
  let ?ev = "event_for (payload_with caps_only)"
  have h: "ev_order ?ev = Some (payload_with caps_only)" "truthy (p_id (payload_with caps_only))"
    by (simp_all add: event_defs)
  have e: "connectedUsers registry_0 ''s1'' = None"
          "timestamp_or (ev_timestamp ?ev) ''t'' = ''t''"
          "create_targetTeams (payload_with caps_only) (ev_teamTypes ?ev) = [''cap'']"
          "delete_targetTeams (payload_with caps_only) (ev_teamTypes ?ev) = [''cap'']"
          "create_targetTeams (payload_with caps_only) None = [''cap'']"
          "delete_targetTeams (payload_with caps_only) None = [''cap'']"
    by (simp_all add: event_defs normalizeTeam_names)
  show ?thesis
    using dispatchers_always_notified
            [of ?ev "payload_with caps_only" registry_0 "''s1''" "''t''"] h e
    by simp
qed

text \<open>
  Claim C8. \<open>create-order\<close> without an order body emits only \<open>order-create-error\<close>, to the
  sender; with an order body, the one event it sends straight to the sender is
  \<open>order-create-confirmed\<close>. \<open>delete-order\<close> without an order body or without an order
  identifier emits only \<open>order-delete-error\<close>, to the sender; otherwise the one event it
  sends straight to the sender is \<open>order-delete-confirmed\<close>. Everything else a handler
  emits goes to rooms.
\<close>

theorem sender_gets_one_confirmation_or_error:
  "(ev_order data = None \<longrightarrow>
      create_order now sid s data =
        [\<lparr>target = ToSocket sid, event = ''order-create-error'',
          payload = ErrorInfo ''Invalid order data''\<rparr>])
   \<and> (ev_order data = Some ord \<longrightarrow>
      sent_to sid (create_order now sid s data) =
        [\<lparr>target = ToSocket sid, event = ''order-create-confirmed'',
          payload = CreateConfirmed (p_id ord) (p_order_number ord) ''delivered''
                      (create_targetTeams ord (ev_teamTypes data)) now\<rparr>])
   \<and> (ev_order data = None \<or> (ev_order data = Some ord \<and> \<not> truthy (p_id ord)) \<longrightarrow>
      delete_order now sid s data =
        [\<lparr>target = ToSocket sid, event = ''order-delete-error'',
          payload = ErrorInfo ''Invalid order data''\<rparr>])
   \<and> (ev_order data = Some ord \<and> truthy (p_id ord) \<longrightarrow>
      sent_to sid (delete_order now sid s data) =
        [\<lparr>target = ToSocket sid, event = ''order-delete-confirmed'',
          payload = DeleteConfirmed (p_id ord) (p_order_number ord) ''deleted'' now\<rparr>])"
  by (auto simp: create_order_def delete_order_def Let_def)

theorem sender_gets_one_confirmation_or_error_witness:
  "create_order ''t'' ''s1'' registry_0
       \<lparr>ev_order = None, ev_teamTypes = Some [''glass''], ev_timestamp = None\<rparr> =
     [\<lparr>target = ToSocket ''s1'', event = ''order-create-error'',
       payload = ErrorInfo ''Invalid order data''\<rparr>]
   \<and> sent_to ''s1'' (create_order ''t'' ''s1'' registry_0 (event_for (payload_with caps_only))) =
     [\<lparr>target = ToSocket ''s1'', event = ''order-create-confirmed'',
       payload = CreateConfirmed (Some ''65f0'') (Some ''ORD-1'') ''delivered'' [''cap''] ''t''\<rparr>]
   \<and> delete_order ''t'' ''s1'' registry_0
       (event_for (payload_with caps_only\<lparr>p_id := None\<rparr>)) =
     [\<lparr>target = ToSocket ''s1'', event = ''order-delete-error'',
       payload = ErrorInfo ''Invalid order data''\<rparr>]
   \<and> sent_to ''s1'' (delete_order ''t'' ''s1'' registry_0 (event_for (payload_with caps_only))) =
     [\<lparr>target = ToSocket ''s1'', event = ''order-delete-confirmed'',
       payload = DeleteConfirmed (Some ''65f0'') (Some ''ORD-1'') ''deleted'' ''t''\<rparr>]"
proof -
  let ?none = "\<lparr>ev_order = None, ev_teamTypes = Some [''glass''], ev_timestamp = None\<rparr>"
  let ?ev = "event_for (payload_with caps_only)"
  let ?noid = "event_for (payload_with caps_only\<lparr>p_id := None\<rparr>)"
  note t = sender_gets_one_confirmation_or_error
  have h: "ev_order ?none = None" "ev_order ?ev = Some (payload_with caps_only)"
          "truthy (p_id (payload_with caps_only))"
          "ev_order ?noid = Some (payload_with caps_only\<lparr>p_id := None\<rparr>)"
          "\<not> truthy (p_id (payload_with caps_only\<lparr>p_id := None\<rparr>))"
    by (simp_all add: event_defs)
  have v: "p_id (payload_with caps_only) = Some ''65f0''"
          "p_order_number (payload_with caps_only) = Some ''ORD-1''"
          "create_targetTeams (payload_with caps_only) (ev_teamTypes ?ev) = [''cap'']"
    by (simp_all add: event_defs normalizeTeam_names)
  have c1: "create_order ''t'' ''s1'' registry_0 ?none =
     [\<lparr>target = ToSocket ''s1'', event = ''order-create-error'',
       payload = ErrorInfo ''Invalid order data''\<rparr>]"
    using t [of ?none "''t''" "''s1''" registry_0] h by simp
  have c2: "sent_to ''s1'' (create_order ''t'' ''s1'' registry_0 ?ev) =
     [\<lparr>target = ToSocket ''s1'', event = ''order-create-confirmed'',
       payload = CreateConfirmed (Some ''65f0'') (Some ''ORD-1'') ''delivered'' [''cap''] ''t''\<rparr>]"
    using t [of ?ev "''t''" "''s1''" registry_0 "payload_with caps_only"] h v by simp
  have c3: "delete_order ''t'' ''s1'' registry_0 ?noid =
     [\<lparr>target = ToSocket ''s1'', event = ''order-delete-error'',
       payload = ErrorInfo ''Invalid order data''\<rparr>]"
    using t [of ?noid "''t''" "''s1''" registry_0 "payload_with caps_only\<lparr>p_id := None\<rparr>"] h
    by simp
  have c4: "sent_to ''s1'' (delete_order ''t'' ''s1'' registry_0 ?ev) =
     [\<lparr>target = ToSocket ''s1'', event = ''order-delete-confirmed'',
       payload = DeleteConfirmed (Some ''65f0'') (Some ''ORD-1'') ''deleted'' ''t''\<rparr>]"
    using t [of ?ev "''t''" "''s1''" registry_0 "payload_with caps_only"] h v by simp
  show ?thesis using c1 c2 c3 c4 by simp
qed

end
